theory Spec2Isabelle
  imports Complex_Main "HOL-Library.Product_Lexorder" "HOL-Library.Char_ord"
    "HOL-Library.List_Lexorder" "HOL-Library.Multiset"
begin

section \<open>Dates, match rows and data frames\<close>

text \<open>
  The feature builders work on a pandas data frame whose \<open>date\<close> column holds
  timestamps. The ledger is day-granular, so a timestamp is a calendar date; it is
  compared and subtracted through its proleptic Gregorian ordinal, computed the way
  Python's \<open>datetime\<close> module does (\<open>_ymd2ord\<close>).
\<close>

datatype timestamp = Timestamp (year: int) (month: int) (day: int)

definition is_leap :: "int \<Rightarrow> bool" where
  "is_leap y = (y mod 4 = 0 \<and> (y mod 100 \<noteq> 0 \<or> y mod 400 = 0))"

definition days_before_year :: "int \<Rightarrow> int" where
  "days_before_year y0 =
     (let y = y0 - 1 in y * 365 + y div 4 - y div 100 + y div 400)"

definition DAYS_BEFORE_MONTH :: "int list" where
  "DAYS_BEFORE_MONTH = [-1, 0, 31, 59, 90, 120, 151, 181, 212, 243, 273, 304, 334]"

definition days_before_month :: "int \<Rightarrow> int \<Rightarrow> int" where
  "days_before_month y m =
     (if 1 \<le> m \<and> m \<le> 12
      then DAYS_BEFORE_MONTH ! nat m + (if m > 2 \<and> is_leap y then 1 else 0)
      else 0)"

definition toordinal :: "timestamp \<Rightarrow> int" where
  "toordinal t = days_before_year (year t) + days_before_month (year t) (month t) + day t"

text \<open>\<open>a < b\<close> on timestamps, and \<open>(a - b).days\<close>.\<close>

definition date_lt :: "timestamp \<Rightarrow> timestamp \<Rightarrow> bool" where
  "date_lt a b = (toordinal a < toordinal b)"

definition date_le :: "timestamp \<Rightarrow> timestamp \<Rightarrow> bool" where
  "date_le a b = (toordinal a \<le> toordinal b)"

definition days_between :: "timestamp \<Rightarrow> timestamp \<Rightarrow> int" where
  "days_between a b = toordinal a - toordinal b"

text \<open>
  One row of the match data frame, with the columns the computations read. Goal counts
  and their sums are far inside the 64-bit range of the frame's integer columns, so they
  are integers without wrap-around.
\<close>

record match_row =
  season :: int
  date :: timestamp
  home_team :: string
  away_team :: string
  home_goals :: int
  away_goals :: int

type_synonym data_frame = "match_row list"

datatype py_error = ZeroDivisionError

text \<open>
  Python's true division \<open>a / b\<close> on integers raises on a zero divisor; the quotient
  is kept exact.
\<close>

definition py_truediv :: "int \<Rightarrow> int \<Rightarrow> py_error + rat" where
  "py_truediv a b = (if b = 0 then Inl ZeroDivisionError else Inr (of_int a / of_int b))"

text \<open>
  A descending sort as CPython's \<open>list.sort(reverse=True)\<close> performs it: reverse, sort
  ascending keeping equal keys in order, reverse again, so that elements with equal keys
  keep their relative order. pandas' \<open>sort_values(ascending=False)\<close> reverses, sorts
  and reverses in the same way; it leaves the order of rows with equal dates to the sorting
  algorithm, and the model keeps them in frame order.
\<close>

definition sort_desc :: "('a \<Rightarrow> 'k::linorder) \<Rightarrow> 'a list \<Rightarrow> 'a list" where
  "sort_desc k xs = rev (sort_key k (rev xs))"

definition sort_values_date_desc :: "data_frame \<Rightarrow> data_frame" where
  "sort_values_date_desc df = sort_desc (\<lambda>r. toordinal (date r)) df"

text \<open>\<open>DataFrame.head(n)\<close>: the first \<open>n\<close> rows; for negative \<open>n\<close> all but the last \<open>-n\<close>.\<close>

definition df_head :: "int \<Rightarrow> 'a list \<Rightarrow> 'a list" where
  "df_head n xs = (if 0 \<le> n then take (nat n) xs else take (length xs - nat (- n)) xs)"

section \<open>Team form\<close>

text \<open>The rows \<open>calculate_team_form\<close> selects: the team's last \<open>n\<close> matches before the date.\<close>

definition team_matches :: "data_frame \<Rightarrow> string \<Rightarrow> timestamp \<Rightarrow> int \<Rightarrow> data_frame" where
  "team_matches df team d n =
     df_head n (sort_values_date_desc
       (filter (\<lambda>r. (home_team r = team \<or> away_team r = team) \<and> date_lt (date r) d) df))"

record form_acc =
  acc_points :: int
  acc_goals_scored :: int
  acc_goals_conceded :: int
  acc_wins :: int
  acc_draws :: int
  acc_losses :: int

definition form_acc0 :: form_acc where
  "form_acc0 = \<lparr>acc_points = 0, acc_goals_scored = 0, acc_goals_conceded = 0,
                acc_wins = 0, acc_draws = 0, acc_losses = 0\<rparr>"

definition result_step :: "int \<Rightarrow> int \<Rightarrow> form_acc \<Rightarrow> form_acc" where
  "result_step gs gc a =
     (let a1 = a\<lparr>acc_goals_scored := acc_goals_scored a + gs,
                 acc_goals_conceded := acc_goals_conceded a + gc\<rparr>
      in if gs > gc then a1\<lparr>acc_points := acc_points a1 + 3, acc_wins := acc_wins a1 + 1\<rparr>
         else if gs = gc then a1\<lparr>acc_points := acc_points a1 + 1, acc_draws := acc_draws a1 + 1\<rparr>
         else a1\<lparr>acc_losses := acc_losses a1 + 1\<rparr>)"

definition form_step :: "string \<Rightarrow> match_row \<Rightarrow> form_acc \<Rightarrow> form_acc" where
  "form_step team m a =
     (if home_team m = team then result_step (home_goals m) (away_goals m) a
      else result_step (away_goals m) (home_goals m) a)"

record team_form =
  form_points :: int
  form_goals_scored :: int
  form_goals_conceded :: int
  form_goal_difference :: int
  form_wins :: int
  form_draws :: int
  form_losses :: int
  form_matches_played :: int
  form_points_per_match :: rat
  form_goals_per_match :: rat
  form_goals_conceded_per_match :: rat

definition calculate_team_form ::
  "data_frame \<Rightarrow> string \<Rightarrow> timestamp \<Rightarrow> int \<Rightarrow> py_error + team_form" where
  "calculate_team_form df team d n =
     (let tm = team_matches df team d n;
          a = fold (form_step team) tm form_acc0;
          len = int (length tm)
      in case py_truediv (acc_points a) (max len 1) of Inl e \<Rightarrow> Inl e | Inr ppm \<Rightarrow>
         (case py_truediv (acc_goals_scored a) (max len 1) of Inl e \<Rightarrow> Inl e | Inr gpm \<Rightarrow>
         (case py_truediv (acc_goals_conceded a) (max len 1) of Inl e \<Rightarrow> Inl e | Inr gcpm \<Rightarrow>
            Inr \<lparr>form_points = acc_points a,
                 form_goals_scored = acc_goals_scored a,
                 form_goals_conceded = acc_goals_conceded a,
                 form_goal_difference = acc_goals_scored a - acc_goals_conceded a,
                 form_wins = acc_wins a,
                 form_draws = acc_draws a,
                 form_losses = acc_losses a,
                 form_matches_played = len,
                 form_points_per_match = ppm,
                 form_goals_per_match = gpm,
                 form_goals_conceded_per_match = gcpm\<rparr>)))"


text \<open>
  \<open>LaLigaDatasetBuilder.calculate_team_form\<close> runs the same selection and the same
  loop; its result has no per-match ratios, so it performs no division.
\<close>

record ds_team_form =
  ds_form_points :: int
  ds_form_goals_scored :: int
  ds_form_goals_conceded :: int
  ds_form_goal_difference :: int
  ds_form_wins :: int
  ds_form_draws :: int
  ds_form_losses :: int
  ds_form_matches_played :: int

definition ds_calculate_team_form ::
  "data_frame \<Rightarrow> string \<Rightarrow> timestamp \<Rightarrow> int \<Rightarrow> ds_team_form" where
  "ds_calculate_team_form df team d n =
     (let tm = team_matches df team d n;
          a = fold (form_step team) tm form_acc0
      in \<lparr>ds_form_points = acc_points a,
          ds_form_goals_scored = acc_goals_scored a,
          ds_form_goals_conceded = acc_goals_conceded a,
          ds_form_goal_difference = acc_goals_scored a - acc_goals_conceded a,
          ds_form_wins = acc_wins a,
          ds_form_draws = acc_draws a,
          ds_form_losses = acc_losses a,
          ds_form_matches_played = int (length tm)\<rparr>)"

section \<open>Head-to-head\<close>

definition h2h_matches ::
  "data_frame \<Rightarrow> string \<Rightarrow> string \<Rightarrow> timestamp \<Rightarrow> int \<Rightarrow> data_frame" where
  "h2h_matches df team1 team2 d n =
     df_head n (sort_values_date_desc
       (filter (\<lambda>r. ((home_team r = team1 \<and> away_team r = team2) \<or>
                      (home_team r = team2 \<and> away_team r = team1)) \<and>
                     date_lt (date r) d) df))"

record h2h_acc =
  acc_team1_wins :: int
  acc_team2_wins :: int
  acc_h2h_draws :: int
  acc_team1_goals :: int
  acc_team2_goals :: int

definition h2h_acc0 :: h2h_acc where
  "h2h_acc0 = \<lparr>acc_team1_wins = 0, acc_team2_wins = 0, acc_h2h_draws = 0,
               acc_team1_goals = 0, acc_team2_goals = 0\<rparr>"

definition h2h_result_step :: "int \<Rightarrow> int \<Rightarrow> h2h_acc \<Rightarrow> h2h_acc" where
  "h2h_result_step g1 g2 a =
     (let a1 = a\<lparr>acc_team1_goals := acc_team1_goals a + g1,
                 acc_team2_goals := acc_team2_goals a + g2\<rparr>
      in if g1 > g2 then a1\<lparr>acc_team1_wins := acc_team1_wins a1 + 1\<rparr>
         else if g1 = g2 then a1\<lparr>acc_h2h_draws := acc_h2h_draws a1 + 1\<rparr>
         else a1\<lparr>acc_team2_wins := acc_team2_wins a1 + 1\<rparr>)"

definition h2h_step :: "string \<Rightarrow> match_row \<Rightarrow> h2h_acc \<Rightarrow> h2h_acc" where
  "h2h_step team1 m a =
     (if home_team m = team1 then h2h_result_step (home_goals m) (away_goals m) a
      else h2h_result_step (away_goals m) (home_goals m) a)"

record head_to_head =
  h2h_team1_wins :: int
  h2h_team2_wins :: int
  h2h_draws :: int
  h2h_team1_goals :: int
  h2h_team2_goals :: int
  h2h_matches_played :: int
  h2h_team1_win_rate :: rat
  h2h_team2_win_rate :: rat
  h2h_draw_rate :: rat
  h2h_goals_per_match :: rat

definition calculate_head_to_head ::
  "data_frame \<Rightarrow> string \<Rightarrow> string \<Rightarrow> timestamp \<Rightarrow> int \<Rightarrow> py_error + head_to_head" where
  "calculate_head_to_head df team1 team2 d n =
     (let hm = h2h_matches df team1 team2 d n;
          a = fold (h2h_step team1) hm h2h_acc0;
          total_matches = int (length hm)
      in case py_truediv (acc_team1_wins a) (max total_matches 1) of Inl e \<Rightarrow> Inl e | Inr r1 \<Rightarrow>
         (case py_truediv (acc_team2_wins a) (max total_matches 1) of Inl e \<Rightarrow> Inl e | Inr r2 \<Rightarrow>
         (case py_truediv (acc_h2h_draws a) (max total_matches 1) of Inl e \<Rightarrow> Inl e | Inr rd \<Rightarrow>
         (case py_truediv (acc_team1_goals a + acc_team2_goals a) (max total_matches 1) of
            Inl e \<Rightarrow> Inl e
          | Inr gpm \<Rightarrow>
            Inr \<lparr>h2h_team1_wins = acc_team1_wins a,
                 h2h_team2_wins = acc_team2_wins a,
                 h2h_draws = acc_h2h_draws a,
                 h2h_team1_goals = acc_team1_goals a,
                 h2h_team2_goals = acc_team2_goals a,
                 h2h_matches_played = total_matches,
                 h2h_team1_win_rate = r1,
                 h2h_team2_win_rate = r2,
                 h2h_draw_rate = rd,
                 h2h_goals_per_match = gpm\<rparr>))))"

section \<open>League position\<close>

text \<open>
  The league table is built by iterating a Python \<open>set\<close> of team names. The order in
  which a set of strings is iterated is not fixed by the program (it follows the
  strings' hashes); it is the parameter \<open>set_iter\<close>, applied to the duplicate-free list
  of the set's elements.
\<close>

definition league_teams :: "data_frame \<Rightarrow> string list" where
  "league_teams season_matches =
     remdups (map home_team season_matches @ map away_team season_matches)"

record table_row =
  tr_team :: string
  tr_points :: int
  tr_goal_difference :: int
  tr_goals_scored :: int
  tr_matches_played :: int

fun build_league_table ::
  "data_frame \<Rightarrow> timestamp \<Rightarrow> string list \<Rightarrow> py_error + table_row list" where
  "build_league_table df d [] = Inr []"
| "build_league_table df d (team_name # ts) =
     (case calculate_team_form df team_name d 100 of
        Inl e \<Rightarrow> Inl e
      | Inr team_stats \<Rightarrow>
        (case build_league_table df d ts of
           Inl e \<Rightarrow> Inl e
         | Inr rows \<Rightarrow>
           Inr (\<lparr>tr_team = team_name,
                 tr_points = form_points team_stats,
                 tr_goal_difference = form_goal_difference team_stats,
                 tr_goals_scored = form_goals_scored team_stats,
                 tr_matches_played = form_matches_played team_stats\<rparr> # rows)))"

definition table_key :: "table_row \<Rightarrow> int \<times> int \<times> int" where
  "table_key x = (tr_points x, tr_goal_difference x, tr_goals_scored x)"

definition sort_league_table :: "table_row list \<Rightarrow> table_row list" where
  "sort_league_table league_table = sort_desc table_key league_table"

record league_pos =
  league_position :: int
  league_points :: int
  league_goal_difference :: int
  league_matches_played :: int

definition default_league_pos :: league_pos where
  "default_league_pos = \<lparr>league_position = 20, league_points = 0,
                         league_goal_difference = 0, league_matches_played = 0\<rparr>"

text \<open>The \<open>enumerate\<close> loop: the first row of the team, at 0-based index \<open>i\<close>.\<close>

fun find_position :: "string \<Rightarrow> table_row list \<Rightarrow> int \<Rightarrow> league_pos option" where
  "find_position team [] i = None"
| "find_position team (team_data # rest) i =
     (if tr_team team_data = team
      then Some \<lparr>league_position = i + 1,
                 league_points = tr_points team_data,
                 league_goal_difference = tr_goal_difference team_data,
                 league_matches_played = tr_matches_played team_data\<rparr>
      else find_position team rest (i + 1))"

definition season_year_of :: "timestamp \<Rightarrow> int" where
  "season_year_of d = (if month d \<ge> 8 then year d else year d - 1)"

definition season_matches_of :: "data_frame \<Rightarrow> timestamp \<Rightarrow> data_frame" where
  "season_matches_of df d =
     filter (\<lambda>r. date_lt (date r) d \<and> season r = season_year_of d) df"

definition calculate_league_position ::
  "(string list \<Rightarrow> string list) \<Rightarrow> data_frame \<Rightarrow> string \<Rightarrow> timestamp
     \<Rightarrow> py_error + league_pos" where
  "calculate_league_position set_iter df team d =
     (let season_matches = season_matches_of df d
      in if season_matches = [] then Inr default_league_pos
         else
           (case build_league_table df d (set_iter (league_teams season_matches)) of
              Inl e \<Rightarrow> Inl e
            | Inr league_table \<Rightarrow>
              (case find_position team (sort_league_table league_table) 0 of
                 Some r \<Rightarrow> Inr r
               | None \<Rightarrow> Inr default_league_pos)))"


text \<open>
  \<open>LaLigaDatasetBuilder.calculate_league_position\<close> takes the season from the frame:
  the \<open>season\<close> of the last row (in frame order) dated at or before the evaluation
  date. When there is no such row the row mask is \<open>(df['date'] < date) & 2014\<close>, which
  selects nothing.
\<close>

definition ds_season_matches_of :: "data_frame \<Rightarrow> timestamp \<Rightarrow> data_frame" where
  "ds_season_matches_of df d =
     (let upto = filter (\<lambda>r. date_le (date r) d) df
      in if length upto > 0
         then filter (\<lambda>r. date_lt (date r) d \<and> season r = season (last upto)) df
         else [])"

record ds_table_row =
  ds_tr_team :: string
  ds_tr_points :: int
  ds_tr_goal_difference :: int
  ds_tr_goals_scored :: int

definition ds_build_league_table ::
  "data_frame \<Rightarrow> timestamp \<Rightarrow> string list \<Rightarrow> ds_table_row list" where
  "ds_build_league_table df d teams =
     map (\<lambda>team_name.
            let team_stats = ds_calculate_team_form df team_name d 100
            in \<lparr>ds_tr_team = team_name,
                ds_tr_points = ds_form_points team_stats,
                ds_tr_goal_difference = ds_form_goal_difference team_stats,
                ds_tr_goals_scored = ds_form_goals_scored team_stats\<rparr>) teams"

definition ds_table_key :: "ds_table_row \<Rightarrow> int \<times> int \<times> int" where
  "ds_table_key x = (ds_tr_points x, ds_tr_goal_difference x, ds_tr_goals_scored x)"

record ds_league_pos =
  ds_position :: int
  ds_points :: int
  ds_goal_difference :: int

definition ds_default_league_pos :: ds_league_pos where
  "ds_default_league_pos = \<lparr>ds_position = 20, ds_points = 0, ds_goal_difference = 0\<rparr>"

fun ds_find_position :: "string \<Rightarrow> ds_table_row list \<Rightarrow> int \<Rightarrow> ds_league_pos option" where
  "ds_find_position team [] i = None"
| "ds_find_position team (team_data # rest) i =
     (if ds_tr_team team_data = team
      then Some \<lparr>ds_position = i + 1,
                 ds_points = ds_tr_points team_data,
                 ds_goal_difference = ds_tr_goal_difference team_data\<rparr>
      else ds_find_position team rest (i + 1))"

definition ds_calculate_league_position ::
  "(string list \<Rightarrow> string list) \<Rightarrow> data_frame \<Rightarrow> string \<Rightarrow> timestamp \<Rightarrow> ds_league_pos" where
  "ds_calculate_league_position set_iter df team d =
     (let season_matches = ds_season_matches_of df d;
          league_table = ds_build_league_table df d (set_iter (league_teams season_matches))
      in case ds_find_position team (sort_desc ds_table_key league_table) 0 of
           Some r \<Rightarrow> r
         | None \<Rightarrow> ds_default_league_pos)"

section \<open>Rest days and momentum\<close>

definition calculate_rest_days :: "data_frame \<Rightarrow> string \<Rightarrow> timestamp \<Rightarrow> int" where
  "calculate_rest_days df team d =
     (case df_head 1 (sort_values_date_desc
             (filter (\<lambda>r. (home_team r = team \<or> away_team r = team) \<and> date_lt (date r) d) df)) of
        [] \<Rightarrow> 0
      | last_match # _ \<Rightarrow> days_between d (date last_match))"

record momentum =
  momentum_score :: int
  recent_wins :: int
  recent_form :: string
  momentum_per_match :: "rat option"

definition momentum_step :: "string \<Rightarrow> match_row \<Rightarrow> int \<times> int \<Rightarrow> int \<times> int" where
  "momentum_step team m sw =
     (let gs = (if home_team m = team then home_goals m else away_goals m);
          gc = (if home_team m = team then away_goals m else home_goals m)
      in if gs > gc then (fst sw + 3, snd sw + 1)
         else if gs = gc then (fst sw + 1, snd sw)
         else sw)"

definition calculate_momentum ::
  "data_frame \<Rightarrow> string \<Rightarrow> timestamp \<Rightarrow> int \<Rightarrow> py_error + momentum" where
  "calculate_momentum df team d n =
     (let recent_matches = team_matches df team d n
      in if recent_matches = []
         then Inr \<lparr>momentum_score = 0, recent_wins = 0, recent_form = ''Unknown'',
                   momentum_per_match = None\<rparr>
         else
           (let sw = fold (momentum_step team) recent_matches (0, 0);
                form = (if fst sw \<ge> 7 then ''Excellent''
                        else if fst sw \<ge> 5 then ''Good''
                        else if fst sw \<ge> 3 then ''Average''
                        else ''Poor'')
            in case py_truediv (fst sw) (int (length recent_matches)) of
                 Inl e \<Rightarrow> Inl e
               | Inr mpm \<Rightarrow>
                 Inr \<lparr>momentum_score = fst sw, recent_wins = snd sw, recent_form = form,
                      momentum_per_match = Some mpm\<rparr>))"

section \<open>Home and away form, scoring patterns, strength of schedule\<close>

text \<open>\<open>calculate_home_away_form\<close>: the form over the team's home matches, or its away matches.\<close>

definition venue_matches ::
  "data_frame \<Rightarrow> string \<Rightarrow> timestamp \<Rightarrow> string \<Rightarrow> int \<Rightarrow> data_frame" where
  "venue_matches df team d venue n =
     (if venue = ''home''
      then df_head n (sort_values_date_desc
             (filter (\<lambda>r. home_team r = team \<and> date_lt (date r) d) df))
      else df_head n (sort_values_date_desc
             (filter (\<lambda>r. away_team r = team \<and> date_lt (date r) d) df)))"

definition venue_step :: "string \<Rightarrow> match_row \<Rightarrow> form_acc \<Rightarrow> form_acc" where
  "venue_step venue m a =
     (if venue = ''home'' then result_step (home_goals m) (away_goals m) a
      else result_step (away_goals m) (home_goals m) a)"

record venue_form =
  venue_points :: int
  venue_goals_scored :: int
  venue_goals_conceded :: int
  venue_goal_difference :: int
  venue_wins :: int
  venue_draws :: int
  venue_losses :: int
  venue_matches_played :: int
  venue_points_per_match :: rat
  venue_win_rate :: rat

definition calculate_home_away_form ::
  "data_frame \<Rightarrow> string \<Rightarrow> timestamp \<Rightarrow> string \<Rightarrow> int \<Rightarrow> py_error + venue_form" where
  "calculate_home_away_form df team d venue n =
     (let tm = venue_matches df team d venue n;
          a = fold (venue_step venue) tm form_acc0;
          len = int (length tm)
      in case py_truediv (acc_points a) (max len 1) of Inl e \<Rightarrow> Inl e | Inr ppm \<Rightarrow>
         (case py_truediv (acc_wins a) (max len 1) of Inl e \<Rightarrow> Inl e | Inr wr \<Rightarrow>
            Inr \<lparr>venue_points = acc_points a,
                 venue_goals_scored = acc_goals_scored a,
                 venue_goals_conceded = acc_goals_conceded a,
                 venue_goal_difference = acc_goals_scored a - acc_goals_conceded a,
                 venue_wins = acc_wins a,
                 venue_draws = acc_draws a,
                 venue_losses = acc_losses a,
                 venue_matches_played = len,
                 venue_points_per_match = ppm,
                 venue_win_rate = wr\<rparr>))"

text \<open>
  \<open>np.mean\<close> of a list of integers, kept exact. The builders call it on non-empty lists
  only.
\<close>

definition np_mean :: "int list \<Rightarrow> rat" where
  "np_mean xs = of_int (sum_list xs) / of_int (int (length xs))"

record scoring_acc =
  sc_goals_scored :: "int list"
  sc_goals_conceded :: "int list"
  sc_clean_sheets :: int
  sc_failed_to_score :: int
  sc_high_scoring_games :: int

definition scoring_step :: "string \<Rightarrow> match_row \<Rightarrow> scoring_acc \<Rightarrow> scoring_acc" where
  "scoring_step team m a =
     (let gs = (if home_team m = team then home_goals m else away_goals m);
          gc = (if home_team m = team then away_goals m else home_goals m)
      in \<lparr>sc_goals_scored = sc_goals_scored a @ [gs],
          sc_goals_conceded = sc_goals_conceded a @ [gc],
          sc_clean_sheets = (if gc = 0 then sc_clean_sheets a + 1 else sc_clean_sheets a),
          sc_failed_to_score =
            (if gs = 0 then sc_failed_to_score a + 1 else sc_failed_to_score a),
          sc_high_scoring_games =
            (if gs + gc \<ge> 3 then sc_high_scoring_games a + 1 else sc_high_scoring_games a)\<rparr>)"

record scoring_patterns =
  avg_goals_scored :: rat
  avg_goals_conceded :: rat
  clean_sheets :: int
  failed_to_score :: int
  high_scoring_games :: int
  clean_sheet_rate :: "rat option"
  btts_rate :: "rat option"

definition calculate_scoring_patterns ::
  "data_frame \<Rightarrow> string \<Rightarrow> timestamp \<Rightarrow> int \<Rightarrow> py_error + scoring_patterns" where
  "calculate_scoring_patterns df team d n =
     (let recent_matches = team_matches df team d n
      in if recent_matches = []
         then Inr \<lparr>avg_goals_scored = 0, avg_goals_conceded = 0, clean_sheets = 0,
                   failed_to_score = 0, high_scoring_games = 0, clean_sheet_rate = None,
                   btts_rate = None\<rparr>
         else
           (let a = fold (scoring_step team) recent_matches
                      \<lparr>sc_goals_scored = [], sc_goals_conceded = [], sc_clean_sheets = 0,
                       sc_failed_to_score = 0, sc_high_scoring_games = 0\<rparr>;
                len = int (length recent_matches)
            in case py_truediv (sc_clean_sheets a) len of Inl e \<Rightarrow> Inl e | Inr csr \<Rightarrow>
               (case py_truediv (len - sc_failed_to_score a) len of Inl e \<Rightarrow> Inl e | Inr btts \<Rightarrow>
                  Inr \<lparr>avg_goals_scored = np_mean (sc_goals_scored a),
                       avg_goals_conceded = np_mean (sc_goals_conceded a),
                       clean_sheets = sc_clean_sheets a,
                       failed_to_score = sc_failed_to_score a,
                       high_scoring_games = sc_high_scoring_games a,
                       clean_sheet_rate = Some csr,
                       btts_rate = Some btts\<rparr>)))"

text \<open>
  \<open>calculate_strength_of_schedule\<close>: the league position and points of each recent
  opponent at the date of the meeting.
\<close>

fun opponent_stats ::
  "(string list \<Rightarrow> string list) \<Rightarrow> data_frame \<Rightarrow> string \<Rightarrow> data_frame
     \<Rightarrow> py_error + (int list \<times> int list)" where
  "opponent_stats set_iter df team [] = Inr ([], [])"
| "opponent_stats set_iter df team (m # ms) =
     (let opponent = (if home_team m = team then away_team m else home_team m)
      in case calculate_league_position set_iter df opponent (date m) of
           Inl e \<Rightarrow> Inl e
         | Inr opp_stats \<Rightarrow>
           (case opponent_stats set_iter df team ms of
              Inl e \<Rightarrow> Inl e
            | Inr (positions, points) \<Rightarrow>
              Inr (league_position opp_stats # positions, league_points opp_stats # points)))"

record schedule_strength =
  avg_opponent_position :: rat
  avg_opponent_points :: rat
  strength_of_schedule :: "rat option"

definition calculate_strength_of_schedule ::
  "(string list \<Rightarrow> string list) \<Rightarrow> data_frame \<Rightarrow> string \<Rightarrow> timestamp \<Rightarrow> int
     \<Rightarrow> py_error + schedule_strength" where
  "calculate_strength_of_schedule set_iter df team d n =
     (let recent_matches = team_matches df team d n
      in if recent_matches = []
         then Inr \<lparr>avg_opponent_position = 10, avg_opponent_points = 0,
                   strength_of_schedule = None\<rparr>
         else
           (case opponent_stats set_iter df team recent_matches of
              Inl e \<Rightarrow> Inl e
            | Inr (opponent_positions, opponent_points) \<Rightarrow>
              Inr \<lparr>avg_opponent_position = np_mean opponent_positions,
                   avg_opponent_points = np_mean opponent_points,
                   strength_of_schedule = Some (21 - np_mean opponent_positions)\<rparr>))"

section \<open>Match storage\<close>

text \<open>
  \<open>EfficientDataStorage\<close> keeps the matches in an SQLite table with an
  auto-incremented \<open>id\<close> and the constraint \<open>UNIQUE(season, matchday, home_team,
  away_team)\<close>. The table is the list of its rows in \<open>id\<close> order; \<open>seq\<close> is the largest
  \<open>id\<close> handed out so far. The metadata file holds the seasons and teams seen (its
  \<open>last_update\<close> clock reading is left out).
\<close>

record match_data =
  md_season :: int
  md_matchday :: int
  md_date :: string
  md_home_team :: string
  md_away_team :: string
  md_home_goals :: int
  md_away_goals :: int
  md_result :: string
  md_url_source :: string
  md_scraped_at :: string

record db_row =
  row_id :: int
  row_data :: match_data

record storage =
  matches :: "db_row list"
  seq :: int
  meta_seasons :: "int list"
  meta_teams :: "string list"

definition unique_key :: "match_data \<Rightarrow> int \<times> int \<times> string \<times> string" where
  "unique_key m = (md_season m, md_matchday m, md_home_team m, md_away_team m)"

text \<open>
  \<open>INSERT OR REPLACE\<close>: rows that collide with the new one on the unique key are
  deleted, then the new row is inserted under a fresh \<open>id\<close>.
\<close>

definition insert_or_replace :: "match_data \<Rightarrow> storage \<Rightarrow> storage" where
  "insert_or_replace m st =
     st\<lparr>matches := filter (\<lambda>r. unique_key (row_data r) \<noteq> unique_key m) (matches st)
                     @ [\<lparr>row_id = seq st + 1, row_data = m\<rparr>],
        seq := seq st + 1\<rparr>"

definition add_team :: "string \<Rightarrow> string list \<Rightarrow> string list" where
  "add_team team teams = (if team \<in> set teams then teams else teams @ [team])"

definition update_metadata :: "match_data \<Rightarrow> storage \<Rightarrow> storage" where
  "update_metadata m st =
     st\<lparr>meta_seasons := (if md_season m \<in> set (meta_seasons st) then meta_seasons st
                          else sort (meta_seasons st @ [md_season m])),
        meta_teams := add_team (md_away_team m) (add_team (md_home_team m) (meta_teams st))\<rparr>"

text \<open>
  \<open>add_match\<close> returns \<open>True\<close> after the insert and the metadata update; its
  \<open>except\<close> branch answers a failure of the database or of the file system, which
  this model does not have.
\<close>

definition add_match :: "storage \<Rightarrow> match_data \<Rightarrow> bool \<times> storage" where
  "add_match st m = (True, update_metadata m (insert_or_replace m st))"

text \<open>\<open>add_matches_batch\<close>: all inserts, then all metadata updates; returns the row count.\<close>

definition add_matches_batch :: "storage \<Rightarrow> match_data list \<Rightarrow> int \<times> storage" where
  "add_matches_batch st ms =
     (int (length ms), fold update_metadata ms (fold insert_or_replace ms st))"

text \<open>The constraint the database maintains on the table.\<close>

definition unique_ok :: "storage \<Rightarrow> bool" where
  "unique_ok st = distinct (map (\<lambda>r. unique_key (row_data r)) (matches st))"


text \<open>
  \<open>get_matches\<close>: the rows selected by the optional season and team (an absent, zero or
  empty argument selects all), \<open>ORDER BY season, matchday, date\<close>. SQL leaves the order of
  rows equal on the three columns to the engine: the rows reach the sort in the order
  \<open>scan\<close>, a parameter, and the sort keeps equal rows in that order.
\<close>

definition selected :: "int option \<Rightarrow> string option \<Rightarrow> match_data \<Rightarrow> bool" where
  "selected season_arg team_arg m =
     ((case season_arg of
         None \<Rightarrow> True
       | Some s \<Rightarrow> (if s \<noteq> 0 then md_season m = s else True))
      \<and> (case team_arg of
         None \<Rightarrow> True
       | Some t \<Rightarrow> (if t \<noteq> [] then md_home_team m = t \<or> md_away_team m = t else True)))"

definition get_matches ::
  "(db_row list \<Rightarrow> db_row list) \<Rightarrow> int option \<Rightarrow> string option \<Rightarrow> storage \<Rightarrow> db_row list" where
  "get_matches scan season_arg team_arg st =
     sort_key (\<lambda>r. (md_season (row_data r), md_matchday (row_data r), md_date (row_data r)))
       (filter (\<lambda>r. selected season_arg team_arg (row_data r)) (scan (matches st)))"

text \<open>
  The frame the feature builder computes on, when it is fed from the storage: the rows of
  \<open>get_dataframe\<close>, their \<open>date\<close> column converted by \<open>pd.to_datetime\<close> as the feature
  builder's \<open>main\<close> does after loading. The conversion is the parameter \<open>to_datetime\<close>.
\<close>

definition to_match_row :: "(string \<Rightarrow> timestamp) \<Rightarrow> match_data \<Rightarrow> match_row" where
  "to_match_row to_datetime m =
     \<lparr>season = md_season m, date = to_datetime (md_date m), home_team = md_home_team m,
      away_team = md_away_team m, home_goals = md_home_goals m, away_goals = md_away_goals m\<rparr>"

definition feature_frame ::
  "(string \<Rightarrow> timestamp) \<Rightarrow> (db_row list \<Rightarrow> db_row list) \<Rightarrow> int option \<Rightarrow> string option
     \<Rightarrow> storage \<Rightarrow> data_frame" where
  "feature_frame to_datetime scan season_arg team_arg st =
     map (\<lambda>r. to_match_row to_datetime (row_data r)) (get_matches scan season_arg team_arg st)"

text \<open>The conversion of the dates \<open>YYYY-MM-DD\<close> that the scrapers write.\<close>

definition digits_val :: "string \<Rightarrow> int" where
  "digits_val s = foldl (\<lambda>n c. 10 * n + (int (of_char c) - 48)) 0 s"

definition iso_date :: "string \<Rightarrow> timestamp" where
  "iso_date s = Timestamp (digits_val (take 4 s)) (digits_val (take 2 (drop 5 s)))
                  (digits_val (take 2 (drop 8 s)))"

section \<open>Notions used to state the properties\<close>

text \<open>The team's matches strictly before the date: the rows every per-team query filters.\<close>

definition qualifying :: "data_frame \<Rightarrow> string \<Rightarrow> timestamp \<Rightarrow> data_frame" where
  "qualifying df team d =
     filter (\<lambda>r. (home_team r = team \<or> away_team r = team) \<and> date_lt (date r) d) df"

definition zero_form :: team_form where
  "zero_form = \<lparr>form_points = 0, form_goals_scored = 0, form_goals_conceded = 0,
                form_goal_difference = 0, form_wins = 0, form_draws = 0, form_losses = 0,
                form_matches_played = 0, form_points_per_match = 0, form_goals_per_match = 0,
                form_goals_conceded_per_match = 0\<rparr>"

text \<open>The head-to-head counters seen from the other team.\<close>

definition mirror_acc :: "h2h_acc \<Rightarrow> h2h_acc" where
  "mirror_acc a = \<lparr>acc_team1_wins = acc_team2_wins a, acc_team2_wins = acc_team1_wins a,
                   acc_h2h_draws = acc_h2h_draws a, acc_team1_goals = acc_team2_goals a,
                   acc_team2_goals = acc_team1_goals a\<rparr>"

text \<open>The 0-based index of the first occurrence of an element of a list.\<close>

fun first_index :: "'a \<Rightarrow> 'a list \<Rightarrow> nat" where
  "first_index x [] = 0"
| "first_index x (y # ys) = (if y = x then 0 else Suc (first_index x ys))"

text \<open>The table row of a team in the feature builder, computed without the ratios.\<close>

definition league_row :: "data_frame \<Rightarrow> timestamp \<Rightarrow> string \<Rightarrow> table_row" where
  "league_row df d team_name =
     (let tm = team_matches df team_name d 100;
          a = fold (form_step team_name) tm form_acc0
      in \<lparr>tr_team = team_name,
          tr_points = acc_points a,
          tr_goal_difference = acc_goals_scored a - acc_goals_conceded a,
          tr_goals_scored = acc_goals_scored a,
          tr_matches_played = int (length tm)\<rparr>)"

text \<open>
  The season-to-date standing of a team over the matches \<open>sm\<close> of a season: points
  (3 for a win, 1 for a draw), goal difference and goals scored, compared
  lexicographically in this order.
\<close>

definition plays :: "string \<Rightarrow> match_row \<Rightarrow> bool" where
  "plays team r = (home_team r = team \<or> away_team r = team)"

definition goals_for :: "string \<Rightarrow> match_row \<Rightarrow> int" where
  "goals_for team r = (if home_team r = team then home_goals r else away_goals r)"

definition goals_against :: "string \<Rightarrow> match_row \<Rightarrow> int" where
  "goals_against team r = (if home_team r = team then away_goals r else home_goals r)"

definition match_points :: "string \<Rightarrow> match_row \<Rightarrow> int" where
  "match_points team r =
     (if goals_for team r > goals_against team r then 3
      else if goals_for team r = goals_against team r then 1 else 0)"

definition season_standing :: "data_frame \<Rightarrow> string \<Rightarrow> int \<times> int \<times> int" where
  "season_standing sm team =
     (let ms = filter (plays team) sm;
          gf = sum_list (map (goals_for team) ms);
          ga = sum_list (map (goals_against team) ms)
      in (sum_list (map (match_points team) ms), gf - ga, gf))"

text \<open>
  All the matches of the team before the date belong to the matches \<open>sm\<close> of the season,
  and there are at most 100 of them: the team's table row is then its season-to-date
  record.
\<close>

definition season_only :: "data_frame \<Rightarrow> data_frame \<Rightarrow> string \<Rightarrow> timestamp \<Rightarrow> bool" where
  "season_only df sm team d =
     (qualifying df team d = filter (plays team) sm \<and> int (length (qualifying df team d)) \<le> 100)"

text \<open>The table row of a team in the dataset builder.\<close>

definition ds_league_row :: "data_frame \<Rightarrow> timestamp \<Rightarrow> string \<Rightarrow> ds_table_row" where
  "ds_league_row df d team_name =
     (let team_stats = ds_calculate_team_form df team_name d 100
      in \<lparr>ds_tr_team = team_name,
          ds_tr_points = ds_form_points team_stats,
          ds_tr_goal_difference = ds_form_goal_difference team_stats,
          ds_tr_goals_scored = ds_form_goals_scored team_stats\<rparr>)"

text \<open>The matches dated strictly before a date: what a feature of that date may read.\<close>

definition matches_before :: "data_frame \<Rightarrow> timestamp \<Rightarrow> data_frame" where
  "matches_before df d = filter (\<lambda>r. date_lt (date r) d) df"

text \<open>
  No team has two matches of the frame on one date; the iteration order of a team set
  depends on the set alone; a scan yields each row once.
\<close>

definition once_a_day :: "data_frame \<Rightarrow> bool" where
  "once_a_day df =
     (\<forall>team. distinct (map (\<lambda>r. toordinal (date r)) (filter (plays team) df)))"

definition set_determined :: "(string list \<Rightarrow> string list) \<Rightarrow> bool" where
  "set_determined set_iter = (\<forall>xs ys. set xs = set ys \<longrightarrow> set_iter xs = set_iter ys)"

definition full_scan :: "(db_row list \<Rightarrow> db_row list) \<Rightarrow> bool" where
  "full_scan scan = (\<forall>rows. mset (scan rows) = mset rows)"

text \<open>The team names in alphabetical order: an iteration order that depends on the set alone.\<close>

definition alphabetical :: "string list \<Rightarrow> string list" where
  "alphabetical xs = sort (remdups xs)"

text \<open>
  Two frames give the same values for every team, pair of teams, date, window and venue,
  in each of the feature builder's eight computations.
\<close>

definition same_feature_values ::
  "(string list \<Rightarrow> string list) \<Rightarrow> data_frame \<Rightarrow> data_frame \<Rightarrow> bool" where
  "same_feature_values set_iter df df' =
     (\<forall>team team1 team2 d n venue.
        calculate_team_form df team d n = calculate_team_form df' team d n
        \<and> calculate_home_away_form df team d venue n
            = calculate_home_away_form df' team d venue n
        \<and> calculate_head_to_head df team1 team2 d n
            = calculate_head_to_head df' team1 team2 d n
        \<and> calculate_league_position set_iter df team d
            = calculate_league_position set_iter df' team d
        \<and> calculate_rest_days df team d = calculate_rest_days df' team d
        \<and> calculate_momentum df team d n = calculate_momentum df' team d n
        \<and> calculate_scoring_patterns df team d n = calculate_scoring_patterns df' team d n
        \<and> calculate_strength_of_schedule set_iter df team d n
            = calculate_strength_of_schedule set_iter df' team d n)"

section \<open>Concrete ledgers and stores\<close>

text \<open>The two-match ledger of the form scenario.\<close>

definition scenario_ledger :: data_frame where
  "scenario_ledger =
     [\<lparr>season = 2020, date = Timestamp 2020 8 15, home_team = ''A'', away_team = ''B'',
       home_goals = 3, away_goals = 1\<rparr>,
      \<lparr>season = 2020, date = Timestamp 2020 8 22, home_team = ''C'', away_team = ''A'',
       home_goals = 0, away_goals = 0\<rparr>]"

text \<open>Two meetings of A and B, one at each ground.\<close>

definition derby_ledger :: data_frame where
  "derby_ledger =
     [\<lparr>season = 2020, date = Timestamp 2020 8 15, home_team = ''A'', away_team = ''B'',
       home_goals = 3, away_goals = 1\<rparr>,
      \<lparr>season = 2020, date = Timestamp 2021 1 10, home_team = ''B'', away_team = ''A'',
       home_goals = 2, away_goals = 2\<rparr>]"

text \<open>Stored matches: a matchday-2 fixture, a matchday-1 fixture played a week earlier.\<close>

definition late_match :: match_data where
  "late_match = \<lparr>md_season = 2020, md_matchday = 2, md_date = ''2020-08-22'',
     md_home_team = ''C'', md_away_team = ''A'', md_home_goals = 0, md_away_goals = 0,
     md_result = ''D'', md_url_source = '''', md_scraped_at = ''2020-08-23T10:00:00''\<rparr>"

definition early_match :: match_data where
  "early_match = \<lparr>md_season = 2020, md_matchday = 1, md_date = ''2020-08-15'',
     md_home_team = ''A'', md_away_team = ''B'', md_home_goals = 3, md_away_goals = 1,
     md_result = ''H'', md_url_source = '''', md_scraped_at = ''2020-08-23T10:05:00''\<rparr>"


definition early_storage :: storage where
  "early_storage = \<lparr>matches = [\<lparr>row_id = 1, row_data = early_match\<rparr>], seq = 1,
     meta_seasons = [2020], meta_teams = [''A'', ''B'']\<rparr>"

definition early_match_relabelled :: match_data where
  "early_match_relabelled = early_match\<lparr>md_matchday := 2\<rparr>"

text \<open>A single drawn match: A and B level on points, goal difference and goals scored.\<close>

definition tie_ledger :: data_frame where
  "tie_ledger =
     [\<lparr>season = 2020, date = Timestamp 2020 8 15, home_team = ''A'', away_team = ''B'',
       home_goals = 1, away_goals = 1\<rparr>]"

text \<open>
  A 2019-season match of A and B in July 2020 and their postponed 2019-season match on
  2020-09-12; and a 2020-season match of C and D played on that same day.
\<close>

definition leak_ledger :: data_frame where
  "leak_ledger =
     [\<lparr>season = 2019, date = Timestamp 2020 7 19, home_team = ''A'', away_team = ''B'',
       home_goals = 1, away_goals = 0\<rparr>,
      \<lparr>season = 2019, date = Timestamp 2020 9 12, home_team = ''A'', away_team = ''B'',
       home_goals = 2, away_goals = 2\<rparr>]"

definition same_day_match :: match_row where
  "same_day_match =
     \<lparr>season = 2020, date = Timestamp 2020 9 12, home_team = ''C'', away_team = ''D'',
      home_goals = 0, away_goals = 0\<rparr>"

text \<open>
  A match that A plays away on the day of its home match against B, and the storage
  holding both; two drawn matches of one day, and the storage holding both.
\<close>

definition same_day_away :: match_data where
  "same_day_away = \<lparr>md_season = 2020, md_matchday = 1, md_date = ''2020-08-15'',
     md_home_team = ''C'', md_away_team = ''A'', md_home_goals = 0, md_away_goals = 0,
     md_result = ''D'', md_url_source = '''', md_scraped_at = ''2020-08-23T10:06:00''\<rparr>"

definition double_storage :: storage where
  "double_storage = \<lparr>matches = [\<lparr>row_id = 1, row_data = early_match\<rparr>,
                                  \<lparr>row_id = 2, row_data = same_day_away\<rparr>], seq = 2,
     meta_seasons = [2020], meta_teams = [''A'', ''B'', ''C'']\<rparr>"

definition draw_AB :: match_data where
  "draw_AB = \<lparr>md_season = 2020, md_matchday = 1, md_date = ''2020-08-15'',
     md_home_team = ''A'', md_away_team = ''B'', md_home_goals = 1, md_away_goals = 1,
     md_result = ''D'', md_url_source = '''', md_scraped_at = ''2020-08-23T10:07:00''\<rparr>"

definition draw_CD :: match_data where
  "draw_CD = \<lparr>md_season = 2020, md_matchday = 1, md_date = ''2020-08-15'',
     md_home_team = ''C'', md_away_team = ''D'', md_home_goals = 1, md_away_goals = 1,
     md_result = ''D'', md_url_source = '''', md_scraped_at = ''2020-08-23T10:08:00''\<rparr>"

definition draws_storage :: storage where
  "draws_storage = \<lparr>matches = [\<lparr>row_id = 1, row_data = draw_AB\<rparr>,
                                 \<lparr>row_id = 2, row_data = draw_CD\<rparr>], seq = 2,
     meta_seasons = [2020], meta_teams = [''A'', ''B'', ''C'', ''D'']\<rparr>"

text \<open>The frame of the two drawn matches; a storage with matches a week apart.\<close>

definition draws_frame :: data_frame where
  "draws_frame =
     [\<lparr>season = 2020, date = Timestamp 2020 8 15, home_team = ''A'', away_team = ''B'',
       home_goals = 1, away_goals = 1\<rparr>,
      \<lparr>season = 2020, date = Timestamp 2020 8 15, home_team = ''C'', away_team = ''D'',
       home_goals = 1, away_goals = 1\<rparr>]"

definition week_storage :: storage where
  "week_storage = \<lparr>matches = [\<lparr>row_id = 1, row_data = early_match\<rparr>,
                                \<lparr>row_id = 2, row_data = late_match\<rparr>], seq = 2,
     meta_seasons = [2020], meta_teams = [''A'', ''B'', ''C'']\<rparr>"

section \<open>Basic facts\<close>

lemmas date_defs = date_lt_def date_le_def days_between_def toordinal_def days_before_year_def
  days_before_month_def DAYS_BEFORE_MONTH_def is_leap_def

lemma length_df_head: "0 \<le> n \<Longrightarrow> int (length (df_head n xs)) \<le> n"
  by (simp add: df_head_def)

lemma df_head_Nil: "df_head n [] = []"
  by (simp add: df_head_def)

lemma sort_desc_Nil: "sort_desc k [] = []"
  by (simp add: sort_desc_def)

lemma set_sort_desc: "set (sort_desc k xs) = set xs"
  by (simp add: sort_desc_def)

lemma length_sort_desc: "length (sort_desc k xs) = length xs"
  by (simp add: sort_desc_def)

lemma set_df_head: "set (df_head n xs) \<subseteq> set xs"
  by (auto simp: df_head_def dest: in_set_takeD)

lemma py_truediv_max: "py_truediv a (max (int k) 1) = Inr (of_int a / of_int (max (int k) 1))"
  by (simp add: py_truediv_def)

lemma form_step_count:
  "acc_wins (form_step team m a) + acc_draws (form_step team m a) + acc_losses (form_step team m a)
     = acc_wins a + acc_draws a + acc_losses a + 1"
  by (simp add: form_step_def result_step_def Let_def)

lemma form_step_points:
  "acc_points (form_step team m a) - 3 * acc_wins (form_step team m a) - acc_draws (form_step team m a)
     = acc_points a - 3 * acc_wins a - acc_draws a"
  by (simp add: form_step_def result_step_def Let_def)

lemma form_fold_count:
  "acc_wins (fold (form_step team) ms a) + acc_draws (fold (form_step team) ms a)
     + acc_losses (fold (form_step team) ms a)
     = acc_wins a + acc_draws a + acc_losses a + int (length ms)"
proof (induction ms arbitrary: a)
  case Nil
  show ?case by simp
next
  case (Cons m ms)
  show ?case using Cons.IH [of "form_step team m a"] form_step_count [of team m a]
    by simp
qed

lemma form_fold_points:
  "acc_points (fold (form_step team) ms a) - 3 * acc_wins (fold (form_step team) ms a)
       - acc_draws (fold (form_step team) ms a)
     = acc_points a - 3 * acc_wins a - acc_draws a"
proof (induction ms arbitrary: a)
  case Nil
  show ?case by simp
next
  case (Cons m ms)
  show ?case using Cons.IH [of "form_step team m a"] form_step_points [of team m a]
    by simp
qed

lemma h2h_step_count:
  "acc_team1_wins (h2h_step t1 m a) + acc_team2_wins (h2h_step t1 m a) + acc_h2h_draws (h2h_step t1 m a)
     = acc_team1_wins a + acc_team2_wins a + acc_h2h_draws a + 1"
  by (simp add: h2h_step_def h2h_result_step_def Let_def)

lemma h2h_fold_count:
  "acc_team1_wins (fold (h2h_step t1) ms a) + acc_team2_wins (fold (h2h_step t1) ms a)
     + acc_h2h_draws (fold (h2h_step t1) ms a)
     = acc_team1_wins a + acc_team2_wins a + acc_h2h_draws a + int (length ms)"
proof (induction ms arbitrary: a)
  case Nil
  show ?case by simp
next
  case (Cons m ms)
  show ?case using Cons.IH [of "h2h_step t1 m a"] h2h_step_count [of t1 m a]
    by simp
qed

lemma calculate_team_form_Inr:
  "calculate_team_form df team d n =
     (let tm = team_matches df team d n;
          a = fold (form_step team) tm form_acc0;
          len = int (length tm)
      in Inr \<lparr>form_points = acc_points a,
                 form_goals_scored = acc_goals_scored a,
                 form_goals_conceded = acc_goals_conceded a,
                 form_goal_difference = acc_goals_scored a - acc_goals_conceded a,
                 form_wins = acc_wins a,
                 form_draws = acc_draws a,
                 form_losses = acc_losses a,
                 form_matches_played = len,
                 form_points_per_match = of_int (acc_points a) / of_int (max len 1),
                 form_goals_per_match = of_int (acc_goals_scored a) / of_int (max len 1),
                 form_goals_conceded_per_match = of_int (acc_goals_conceded a) / of_int (max len 1)\<rparr>)"
  by (simp add: calculate_team_form_def Let_def py_truediv_max)

lemma calculate_head_to_head_Inr:
  "calculate_head_to_head df team1 team2 d n =
     (let hm = h2h_matches df team1 team2 d n;
          a = fold (h2h_step team1) hm h2h_acc0;
          total_matches = int (length hm)
      in Inr \<lparr>h2h_team1_wins = acc_team1_wins a,
                 h2h_team2_wins = acc_team2_wins a,
                 h2h_draws = acc_h2h_draws a,
                 h2h_team1_goals = acc_team1_goals a,
                 h2h_team2_goals = acc_team2_goals a,
                 h2h_matches_played = total_matches,
                 h2h_team1_win_rate = of_int (acc_team1_wins a) / of_int (max total_matches 1),
                 h2h_team2_win_rate = of_int (acc_team2_wins a) / of_int (max total_matches 1),
                 h2h_draw_rate = of_int (acc_h2h_draws a) / of_int (max total_matches 1),
                 h2h_goals_per_match =
                   of_int (acc_team1_goals a + acc_team2_goals a) / of_int (max total_matches 1)\<rparr>)"
  by (simp add: calculate_head_to_head_def Let_def py_truediv_max)


lemma team_matches_qualifying:
  "team_matches df team d n = df_head n (sort_values_date_desc (qualifying df team d))"
  by (simp add: team_matches_def qualifying_def)

lemma team_matches_empty:
  "qualifying df team d = [] \<Longrightarrow> team_matches df team d n = []"
  by (simp add: team_matches_qualifying sort_values_date_desc_def sort_desc_Nil df_head_Nil)

lemma calculate_rest_days_qualifying:
  "calculate_rest_days df team d =
     (case sort_values_date_desc (qualifying df team d) of
        [] \<Rightarrow> 0
      | last_match # _ \<Rightarrow> days_between d (date last_match))"
  by (cases "sort_values_date_desc (qualifying df team d)")
     (simp_all add: calculate_rest_days_def qualifying_def df_head_def)

lemma calculate_momentum_no_error: "calculate_momentum df team d n \<noteq> Inl e"
  by (simp add: calculate_momentum_def Let_def py_truediv_def)

lemma calculate_team_form_no_error: "calculate_team_form df team d n \<noteq> Inl e"
  by (simp add: calculate_team_form_Inr Let_def)

lemma sort_desc_sorted: "sorted (rev (map k (sort_desc k xs)))"
  by (simp add: sort_desc_def rev_map)

lemma sort_desc_nth_mono:
  assumes "i \<le> j" "j < length xs"
  shows "k (sort_desc k xs ! j) \<le> k (sort_desc k xs ! i)"
proof -
  have "map k (sort_desc k xs) ! j \<le> map k (sort_desc k xs) ! i"
    using sort_desc_sorted [of k xs] assms
    by (intro sorted_rev_nth_mono) (simp_all add: length_sort_desc)
  then show ?thesis using assms by (simp add: length_sort_desc)
qed

lemma sort_desc_stable: "filter (\<lambda>y. k y = c) (sort_desc k xs) = filter (\<lambda>y. k y = c) xs"
proof -
  have "filter (\<lambda>y. k y = c) (sort_desc k xs) = rev (filter (\<lambda>y. k y = c) (sort_key k (rev xs)))"
    by (simp add: sort_desc_def rev_filter)
  also have "\<dots> = rev (filter (\<lambda>y. k y = c) (rev xs))"
    by (simp only: sort_key_stable)
  also have "\<dots> = filter (\<lambda>y. k y = c) xs"
    by (simp add: rev_filter)
  finally show ?thesis .
qed

lemma distinct_sort_desc: "distinct (sort_desc k xs) = distinct xs"
  by (simp add: sort_desc_def)

lemma mset_sort_desc: "mset (sort_desc k xs) = mset xs"
  by (simp add: sort_desc_def)

lemma hd_sort_desc_Max:
  assumes "xs \<noteq> []"
  shows "k (hd (sort_desc k xs)) = Max (k ` set xs)"
proof -
  let ?s = "sort_desc k xs"
  have ne: "?s \<noteq> []" using assms by (metis length_sort_desc length_0_conv)
  have hd_in: "hd ?s \<in> set xs"
    using ne hd_in_set [of ?s] by (simp add: set_sort_desc)
  have "k y \<le> k (hd ?s)" if "y \<in> set xs" for y
  proof -
    from that have "y \<in> set ?s" by (simp add: set_sort_desc)
    then obtain j where j: "j < length ?s" "?s ! j = y"
      by (auto simp: in_set_conv_nth)
    then have "k (?s ! j) \<le> k (?s ! 0)"
      by (intro sort_desc_nth_mono) (simp_all add: length_sort_desc)
    then show ?thesis using j ne by (simp add: hd_conv_nth)
  qed
  then show ?thesis
    using hd_in by (intro Max_eqI [symmetric]) auto
qed

lemma build_league_table_Inr:
  "build_league_table df d ts = Inr (map (league_row df d) ts)"
  by (induction ts) (simp_all add: calculate_team_form_Inr league_row_def Let_def)

lemma tr_team_league_row: "tr_team (league_row df d t) = t"
  by (simp add: league_row_def Let_def)

lemma find_position_None:
  "team \<notin> tr_team ` set rows \<Longrightarrow> find_position team rows i = None"
  by (induction rows arbitrary: i) auto

lemma find_position_Some:
  "team \<in> tr_team ` set rows \<Longrightarrow>
     \<exists>r. find_position team rows i = Some r
       \<and> league_position r = i + int (first_index team (map tr_team rows)) + 1"
proof (induction rows arbitrary: i)
  case Nil
  then show ?case by simp
next
  case (Cons x rows)
  show ?case
  proof (cases "tr_team x = team")
    case True
    then show ?thesis by simp
  next
    case False
    then have "team \<in> tr_team ` set rows" using Cons.prems by auto
    from Cons.IH [OF this, of "i + 1"] False show ?thesis by auto
  qed
qed

lemma calculate_league_position_table:
  assumes "season_matches_of df d \<noteq> []"
  shows "calculate_league_position set_iter df team d =
     (case find_position team
             (sort_league_table
                (map (league_row df d) (set_iter (league_teams (season_matches_of df d))))) 0 of
        Some r \<Rightarrow> Inr r
      | None \<Rightarrow> Inr default_league_pos)"
  using assms by (simp add: calculate_league_position_def Let_def build_league_table_Inr)

lemma teams_of_sorted_table:
  "tr_team ` set (sort_league_table (map (league_row df d) ts)) = set ts"
  by (simp add: sort_league_table_def set_sort_desc image_image tr_team_league_row)

lemma absent_team_fb:
  assumes "team \<notin> set (set_iter (league_teams (season_matches_of df d)))"
  shows "calculate_league_position set_iter df team d = Inr default_league_pos"
proof (cases "season_matches_of df d = []")
  case True
  then show ?thesis by (simp add: calculate_league_position_def)
next
  case False
  have "find_position team
           (sort_league_table
              (map (league_row df d) (set_iter (league_teams (season_matches_of df d))))) 0 = None"
    using assms by (intro find_position_None) (simp add: teams_of_sorted_table)
  then show ?thesis
    using False by (simp add: calculate_league_position_table)
qed

lemma ds_find_position_None:
  "team \<notin> ds_tr_team ` set rows \<Longrightarrow> ds_find_position team rows i = None"
  by (induction rows arbitrary: i) auto

lemma ds_teams_of_table:
  "ds_tr_team ` set (sort_desc ds_table_key (ds_build_league_table df d ts)) = set ts"
  by (simp add: set_sort_desc ds_build_league_table_def image_image Let_def)

lemma absent_team_ds:
  assumes "team \<notin> set (set_iter (league_teams (ds_season_matches_of df d)))"
  shows "ds_calculate_league_position set_iter df team d = ds_default_league_pos"
proof -
  have "ds_find_position team
          (sort_desc ds_table_key
             (ds_build_league_table df d (set_iter (league_teams (ds_season_matches_of df d))))) 0
        = None"
    using assms by (intro ds_find_position_None) (simp add: ds_teams_of_table)
  then show ?thesis
    by (simp add: ds_calculate_league_position_def Let_def)
qed

lemma not_in_league_teams:
  assumes "\<forall>r \<in> set sm. home_team r \<noteq> team \<and> away_team r \<noteq> team"
  shows "team \<notin> set (league_teams sm)"
  using assms by (auto simp: league_teams_def)

lemma first_index_nth:
  "x \<in> set xs \<Longrightarrow> first_index x xs < length xs \<and> xs ! first_index x xs = x"
  by (induction xs) auto

lemma first_index_map_inj:
  "(\<forall>y \<in> set xs. f y = f x \<longrightarrow> y = x) \<Longrightarrow> first_index (f x) (map f xs) = first_index x xs"
  by (induction xs) auto

lemma first_index_filter:
  "P x \<Longrightarrow> P y \<Longrightarrow> x \<in> set xs \<Longrightarrow> y \<in> set xs \<Longrightarrow>
     (first_index x (filter P xs) < first_index y (filter P xs))
       = (first_index x xs < first_index y xs)"
proof (induction xs)
  case Nil
  then show ?case by simp
next
  case (Cons z zs)
  show ?case
  proof (cases "z = x \<or> z = y")
    case True
    then show ?thesis using Cons.prems by auto
  next
    case False
    then have "x \<in> set zs" "y \<in> set zs" using Cons.prems by auto
    from Cons.IH [OF Cons.prems(1,2) this] False show ?thesis by simp
  qed
qed

lemma league_row_index_sorted:
  assumes "t \<in> set ts"
  shows "first_index t (map tr_team (sort_league_table (map (league_row df d) ts)))
           = first_index (league_row df d t) (sort_league_table (map (league_row df d) ts))"
proof -
  let ?S = "sort_league_table (map (league_row df d) ts)"
  have "\<forall>y \<in> set ?S. tr_team y = tr_team (league_row df d t) \<longrightarrow> y = league_row df d t"
    by (auto simp: sort_league_table_def set_sort_desc tr_team_league_row)
  from first_index_map_inj [of ?S tr_team "league_row df d t", OF this]
  show ?thesis by (simp add: tr_team_league_row)
qed

lemma league_row_index_iter:
  "first_index (league_row df d t) (map (league_row df d) ts) = first_index t ts"
proof -
  have "\<forall>y \<in> set ts. league_row df d y = league_row df d t \<longrightarrow> y = t"
    by (metis tr_team_league_row)
  then show ?thesis by (rule first_index_map_inj)
qed

lemma sorted_index_strict:
  assumes "x \<in> set xs" "y \<in> set xs" "k y < k x"
  shows "first_index x (sort_desc k xs) < first_index y (sort_desc k xs)"
proof (rule ccontr)
  let ?S = "sort_desc k xs"
  assume "\<not> first_index x ?S < first_index y ?S"
  then have le: "first_index y ?S \<le> first_index x ?S" by simp
  have x: "first_index x ?S < length ?S \<and> ?S ! first_index x ?S = x"
    using assms(1) by (intro first_index_nth) (simp add: set_sort_desc)
  have y: "first_index y ?S < length ?S \<and> ?S ! first_index y ?S = y"
    using assms(2) by (intro first_index_nth) (simp add: set_sort_desc)
  have "k (?S ! first_index x ?S) \<le> k (?S ! first_index y ?S)"
    using le x by (intro sort_desc_nth_mono) (simp_all add: length_sort_desc)
  then show False using x y assms(3) by simp
qed

lemma sorted_index_tie:
  assumes "x \<in> set xs" "y \<in> set xs" "k x = k y"
  shows "(first_index x (sort_desc k xs) < first_index y (sort_desc k xs))
           = (first_index x xs < first_index y xs)"
proof -
  let ?P = "\<lambda>z. k z = k y"
  have "(first_index x (sort_desc k xs) < first_index y (sort_desc k xs))
      = (first_index x (filter ?P (sort_desc k xs)) < first_index y (filter ?P (sort_desc k xs)))"
    using assms by (intro first_index_filter [symmetric]) (simp_all add: set_sort_desc)
  also have "\<dots> = (first_index x (filter ?P xs) < first_index y (filter ?P xs))"
    by (simp only: sort_desc_stable)
  also have "\<dots> = (first_index x xs < first_index y xs)"
    using assms by (intro first_index_filter) simp_all
  finally show ?thesis .
qed

lemma league_position_index:
  assumes "season_matches_of df d \<noteq> []"
      and "t \<in> set (set_iter (league_teams (season_matches_of df d)))"
  shows "\<exists>p. calculate_league_position set_iter df t d = Inr p
           \<and> league_position p =
               int (first_index (league_row df d t)
                      (sort_league_table (map (league_row df d)
                         (set_iter (league_teams (season_matches_of df d)))))) + 1"
proof -
  let ?ts = "set_iter (league_teams (season_matches_of df d))"
  let ?S = "sort_league_table (map (league_row df d) ?ts)"
  have "t \<in> tr_team ` set ?S" using assms(2) by (simp add: teams_of_sorted_table)
  from find_position_Some [OF this, of 0]
  obtain r where r: "find_position t ?S 0 = Some r"
      "league_position r = 0 + int (first_index t (map tr_team ?S)) + 1"
    by blast
  have "calculate_league_position set_iter df t d = Inr r"
    using assms(1) r(1) by (simp add: calculate_league_position_table)
  moreover have "league_position r = int (first_index (league_row df d t) ?S) + 1"
    using r(2) league_row_index_sorted [OF assms(2), of df d] by simp
  ultimately show ?thesis by blast
qed

lemma form_step_sums:
  "acc_points (form_step t m a) = acc_points a + match_points t m"
  "acc_goals_scored (form_step t m a) = acc_goals_scored a + goals_for t m"
  "acc_goals_conceded (form_step t m a) = acc_goals_conceded a + goals_against t m"
  by (simp_all add: form_step_def result_step_def match_points_def goals_for_def
      goals_against_def Let_def)

lemma form_fold_sums:
  "acc_points (fold (form_step t) ms a) = acc_points a + sum_list (map (match_points t) ms)
   \<and> acc_goals_scored (fold (form_step t) ms a)
       = acc_goals_scored a + sum_list (map (goals_for t) ms)
   \<and> acc_goals_conceded (fold (form_step t) ms a)
       = acc_goals_conceded a + sum_list (map (goals_against t) ms)"
proof (induction ms arbitrary: a)
  case Nil
  show ?case by simp
next
  case (Cons m ms)
  show ?case using Cons.IH [of "form_step t m a"] by (simp add: form_step_sums)
qed

lemma sum_list_sort_desc:
  fixes f :: "'a \<Rightarrow> int"
  shows "sum_list (map f (sort_desc k xs)) = sum_list (map f xs)"
proof -
  have "sum_list (map f ys) = sum_mset (image_mset f (mset ys))" for ys
    by (metis mset_map sum_mset_sum_list)
  then show ?thesis by (simp add: mset_sort_desc)
qed

lemma df_head_all: "int (length xs) \<le> n \<Longrightarrow> df_head n xs = xs"
  by (simp add: df_head_def)

lemma team_matches_season_only:
  assumes "season_only df sm t d"
  shows "team_matches df t d 100 = sort_values_date_desc (filter (plays t) sm)"
proof -
  have q: "qualifying df t d = filter (plays t) sm"
    using assms by (simp add: season_only_def)
  have len: "int (length (qualifying df t d)) \<le> 100"
    using assms unfolding season_only_def by (rule conjunct2)
  have "int (length (sort_values_date_desc (qualifying df t d))) \<le> 100"
    using len by (simp add: sort_values_date_desc_def length_sort_desc)
  then have "team_matches df t d 100 = sort_values_date_desc (qualifying df t d)"
    unfolding team_matches_qualifying by (rule df_head_all)
  then show ?thesis by (simp add: q)
qed

lemma season_fold:
  assumes "season_only df sm t d"
  shows "(acc_points (fold (form_step t) (team_matches df t d 100) form_acc0),
          acc_goals_scored (fold (form_step t) (team_matches df t d 100) form_acc0)
            - acc_goals_conceded (fold (form_step t) (team_matches df t d 100) form_acc0),
          acc_goals_scored (fold (form_step t) (team_matches df t d 100) form_acc0))
         = season_standing sm t"
  by (simp add: team_matches_season_only [OF assms] form_fold_sums form_acc0_def
      sort_values_date_desc_def sum_list_sort_desc season_standing_def Let_def)

lemma table_key_season:
  assumes "season_only df sm t d"
  shows "table_key (league_row df d t) = season_standing sm t"
  using season_fold [OF assms] by (simp add: table_key_def league_row_def Let_def)

lemma ds_table_key_season:
  assumes "season_only df sm t d"
  shows "ds_table_key (ds_league_row df d t) = season_standing sm t"
  using season_fold [OF assms]
  by (simp add: ds_table_key_def ds_league_row_def ds_calculate_team_form_def Let_def)

lemma ds_build_league_table_map:
  "ds_build_league_table df d ts = map (ds_league_row df d) ts"
  by (simp add: ds_build_league_table_def ds_league_row_def)

lemma ds_tr_team_league_row: "ds_tr_team (ds_league_row df d t) = t"
  by (simp add: ds_league_row_def Let_def)

lemma ds_find_position_Some:
  "team \<in> ds_tr_team ` set rows \<Longrightarrow>
     \<exists>r. ds_find_position team rows i = Some r
       \<and> ds_position r = i + int (first_index team (map ds_tr_team rows)) + 1"
proof (induction rows arbitrary: i)
  case Nil
  then show ?case by simp
next
  case (Cons x rows)
  show ?case
  proof (cases "ds_tr_team x = team")
    case True
    then show ?thesis by simp
  next
    case False
    then have "team \<in> ds_tr_team ` set rows" using Cons.prems by auto
    from Cons.IH [OF this, of "i + 1"] False show ?thesis by auto
  qed
qed

lemma ds_league_row_index_sorted:
  assumes "t \<in> set ts"
  shows "first_index t (map ds_tr_team (sort_desc ds_table_key (map (ds_league_row df d) ts)))
           = first_index (ds_league_row df d t)
               (sort_desc ds_table_key (map (ds_league_row df d) ts))"
proof -
  let ?S = "sort_desc ds_table_key (map (ds_league_row df d) ts)"
  have "\<forall>y \<in> set ?S. ds_tr_team y = ds_tr_team (ds_league_row df d t)
          \<longrightarrow> y = ds_league_row df d t"
    by (auto simp: set_sort_desc ds_tr_team_league_row)
  from first_index_map_inj [of ?S ds_tr_team "ds_league_row df d t", OF this]
  show ?thesis by (simp add: ds_tr_team_league_row)
qed

lemma ds_league_row_index_iter:
  "first_index (ds_league_row df d t) (map (ds_league_row df d) ts) = first_index t ts"
proof -
  have "\<forall>y \<in> set ts. ds_league_row df d y = ds_league_row df d t \<longrightarrow> y = t"
    by (metis ds_tr_team_league_row)
  then show ?thesis by (rule first_index_map_inj)
qed

lemma ds_league_position_index:
  assumes "t \<in> set (set_iter (league_teams (ds_season_matches_of df d)))"
  shows "ds_position (ds_calculate_league_position set_iter df t d) =
           int (first_index (ds_league_row df d t)
                  (sort_desc ds_table_key (map (ds_league_row df d)
                     (set_iter (league_teams (ds_season_matches_of df d)))))) + 1"
proof -
  let ?ts = "set_iter (league_teams (ds_season_matches_of df d))"
  let ?S = "sort_desc ds_table_key (map (ds_league_row df d) ?ts)"
  have "t \<in> ds_tr_team ` set ?S"
    using assms by (simp add: set_sort_desc image_image ds_tr_team_league_row)
  from ds_find_position_Some [OF this, of 0]
  obtain r where r: "ds_find_position t ?S 0 = Some r"
      "ds_position r = 0 + int (first_index t (map ds_tr_team ?S)) + 1"
    by blast
  have "ds_calculate_league_position set_iter df t d = r"
    using r(1) by (simp add: ds_calculate_league_position_def ds_build_league_table_map Let_def)
  then show ?thesis
    using r(2) ds_league_row_index_sorted [OF assms, of df d] by simp
qed


lemma sort_desc_perm_unique:
  assumes "mset xs = mset ys" and "distinct (map k xs)"
  shows "sort_desc k xs = sort_desc k ys"
proof -
  let ?X = "sort_key k (rev xs)" and ?Y = "sort_key k (rev ys)"
  have sxy: "set ys = set xs"
    using assms(1) by (rule mset_eq_setD [symmetric])
  have sets: "set ?X = set xs" "set ?Y = set xs"
    using sxy by simp_all
  have "mset (map k ?X) = mset (map k xs)" by simp
  from mset_eq_imp_distinct_iff [OF this] assms(2)
  have dX: "distinct (map k ?X)" by simp
  have "mset (map k ?Y) = mset (map k xs)" using assms(1) by simp
  from mset_eq_imp_distinct_iff [OF this] assms(2)
  have dY: "distinct (map k ?Y)" by simp
  have "map k ?X = map k ?Y"
    using dX dY sets by (intro sorted_distinct_set_unique) simp_all
  moreover have "inj_on k (set ?X \<union> set ?Y)"
    using assms(2) sets by (simp add: distinct_map)
  ultimately have "?X = ?Y" by (simp add: inj_on_map_eq_map)
  then show ?thesis by (simp add: sort_desc_def)
qed

lemma once_a_day_filter:
  assumes "once_a_day df" and "\<forall>r. Q r \<longrightarrow> plays team r"
  shows "distinct (map (\<lambda>r. toordinal (date r)) (filter Q df))"
proof -
  have e: "filter Q (filter (plays team) df) = filter Q df"
    using assms(2) by (induction df) auto
  have "distinct (map (\<lambda>r. toordinal (date r)) (filter (plays team) df))"
    using assms(1) by (simp add: once_a_day_def)
  then have "distinct (map (\<lambda>r. toordinal (date r)) (filter Q (filter (plays team) df)))"
    by (rule distinct_map_filter)
  then show ?thesis unfolding e .
qed

lemma sorted_filter_perm:
  assumes "mset df = mset df'" and "once_a_day df" and "\<forall>r. Q r \<longrightarrow> plays team r"
  shows "sort_values_date_desc (filter Q df) = sort_values_date_desc (filter Q df')"
proof -
  have "mset (filter Q df) = mset (filter Q df')"
    using assms(1) by simp
  then show ?thesis
    unfolding sort_values_date_desc_def
    using once_a_day_filter [OF assms(2,3)] by (rule sort_desc_perm_unique)
qed

lemma team_matches_perm:
  assumes "mset df = mset df'" and "once_a_day df"
  shows "team_matches df team d n = team_matches df' team d n"
proof -
  have "\<forall>r. (home_team r = team \<or> away_team r = team) \<and> date_lt (date r) d \<longrightarrow> plays team r"
    by (simp add: plays_def)
  from sorted_filter_perm [OF assms this] show ?thesis
    by (simp add: team_matches_def)
qed

lemma h2h_matches_perm:
  assumes "mset df = mset df'" and "once_a_day df"
  shows "h2h_matches df team1 team2 d n = h2h_matches df' team1 team2 d n"
proof -
  have "\<forall>r. ((home_team r = team1 \<and> away_team r = team2) \<or>
             (home_team r = team2 \<and> away_team r = team1)) \<and> date_lt (date r) d
          \<longrightarrow> plays team1 r"
    by (auto simp: plays_def)
  from sorted_filter_perm [OF assms this] show ?thesis
    by (simp add: h2h_matches_def)
qed

lemma venue_matches_perm:
  assumes "mset df = mset df'" and "once_a_day df"
  shows "venue_matches df team d venue n = venue_matches df' team d venue n"
proof -
  have h: "\<forall>r. home_team r = team \<and> date_lt (date r) d \<longrightarrow> plays team r"
    and a: "\<forall>r. away_team r = team \<and> date_lt (date r) d \<longrightarrow> plays team r"
    by (simp_all add: plays_def)
  show ?thesis
    using sorted_filter_perm [OF assms h] sorted_filter_perm [OF assms a]
    by (simp add: venue_matches_def)
qed

lemma qualifying_sorted_perm:
  assumes "mset df = mset df'" and "once_a_day df"
  shows "sort_values_date_desc (qualifying df team d)
           = sort_values_date_desc (qualifying df' team d)"
proof -
  have "\<forall>r. (home_team r = team \<or> away_team r = team) \<and> date_lt (date r) d \<longrightarrow> plays team r"
    by (simp add: plays_def)
  from sorted_filter_perm [OF assms this] show ?thesis
    by (simp add: qualifying_def)
qed

lemma league_teams_set: "set (league_teams sm) = home_team ` set sm \<union> away_team ` set sm"
  by (simp add: league_teams_def)

lemma season_matches_perm:
  assumes "mset df = mset df'"
  shows "mset (season_matches_of df d) = mset (season_matches_of df' d)"
  using assms by (simp add: season_matches_of_def)

lemma season_teams_perm:
  assumes "mset df = mset df'" and "set_determined set_iter"
  shows "set_iter (league_teams (season_matches_of df d))
           = set_iter (league_teams (season_matches_of df' d))"
proof -
  have "set (season_matches_of df d) = set (season_matches_of df' d)"
    using season_matches_perm [OF assms(1)] by (rule mset_eq_setD)
  then have "set (league_teams (season_matches_of df d))
      = set (league_teams (season_matches_of df' d))"
    by (simp add: league_teams_set)
  then show ?thesis using assms(2) unfolding set_determined_def by blast
qed

lemma season_empty_perm:
  assumes "mset df = mset df'"
  shows "(season_matches_of df d = []) = (season_matches_of df' d = [])"
proof -
  have "length (season_matches_of df d) = length (season_matches_of df' d)"
    using season_matches_perm [OF assms] by (rule mset_eq_length)
  then show ?thesis
    by (cases "season_matches_of df d"; cases "season_matches_of df' d") simp_all
qed

lemma league_position_perm:
  assumes "mset df = mset df'" and "once_a_day df" and "set_determined set_iter"
  shows "calculate_league_position set_iter df team d
           = calculate_league_position set_iter df' team d"
proof -
  have "league_row df d = league_row df' d"
    by (rule ext) (simp add: league_row_def team_matches_perm [OF assms(1,2)])
  then have bt: "build_league_table df d = build_league_table df' d"
    by (intro ext) (simp add: build_league_table_Inr)
  show ?thesis
    unfolding calculate_league_position_def Let_def bt
      season_empty_perm [OF assms(1)] season_teams_perm [OF assms(1,3)]
    by (rule refl)
qed

lemma opponent_stats_perm:
  assumes "mset df = mset df'" and "once_a_day df" and "set_determined set_iter"
  shows "opponent_stats set_iter df team ms = opponent_stats set_iter df' team ms"
proof (induction ms)
  case Nil
  show ?case by simp
next
  case (Cons m ms)
  have lp: "calculate_league_position set_iter df = calculate_league_position set_iter df'"
    by (intro ext) (rule league_position_perm [OF assms])
  show ?case
    unfolding opponent_stats.simps lp Cons.IH by (rule refl)
qed

lemma features_perm:
  assumes "mset df = mset df'" and "once_a_day df" and "set_determined set_iter"
  shows "calculate_team_form df team d n = calculate_team_form df' team d n
       \<and> calculate_home_away_form df team d venue n = calculate_home_away_form df' team d venue n
       \<and> calculate_head_to_head df team1 team2 d n = calculate_head_to_head df' team1 team2 d n
       \<and> calculate_league_position set_iter df team d
           = calculate_league_position set_iter df' team d
       \<and> calculate_rest_days df team d = calculate_rest_days df' team d
       \<and> calculate_momentum df team d n = calculate_momentum df' team d n
       \<and> calculate_scoring_patterns df team d n = calculate_scoring_patterns df' team d n
       \<and> calculate_strength_of_schedule set_iter df team d n
           = calculate_strength_of_schedule set_iter df' team d n"
proof (intro conjI)
  note tm = team_matches_perm [OF assms(1,2)]
  show "calculate_team_form df team d n = calculate_team_form df' team d n"
    by (simp add: calculate_team_form_def tm)
  show "calculate_home_away_form df team d venue n = calculate_home_away_form df' team d venue n"
    by (simp add: calculate_home_away_form_def venue_matches_perm [OF assms(1,2)])
  show "calculate_head_to_head df team1 team2 d n = calculate_head_to_head df' team1 team2 d n"
    by (simp add: calculate_head_to_head_def h2h_matches_perm [OF assms(1,2)])
  show "calculate_league_position set_iter df team d
           = calculate_league_position set_iter df' team d"
    by (rule league_position_perm [OF assms])
  show "calculate_rest_days df team d = calculate_rest_days df' team d"
    by (simp add: calculate_rest_days_qualifying qualifying_sorted_perm [OF assms(1,2)])
  show "calculate_momentum df team d n = calculate_momentum df' team d n"
    by (simp add: calculate_momentum_def tm)
  show "calculate_scoring_patterns df team d n = calculate_scoring_patterns df' team d n"
    by (simp add: calculate_scoring_patterns_def tm)
  show "calculate_strength_of_schedule set_iter df team d n
           = calculate_strength_of_schedule set_iter df' team d n"
  proof -
    have os: "opponent_stats set_iter df = opponent_stats set_iter df'"
      by (intro ext) (rule opponent_stats_perm [OF assms])
    show ?thesis
      unfolding calculate_strength_of_schedule_def tm os by (rule refl)
  qed
qed

lemma same_feature_values_perm:
  assumes "mset df = mset df'" and "once_a_day df" and "set_determined set_iter"
  shows "same_feature_values set_iter df df'"
  unfolding same_feature_values_def using features_perm [OF assms] by blast

lemma mset_feature_frame:
  assumes "full_scan scan"
  shows "mset (feature_frame to_datetime scan season_arg team_arg st) =
           image_mset (to_match_row to_datetime)
             (filter_mset (selected season_arg team_arg) (mset (map row_data (matches st))))"
proof -
  have "mset (scan (matches st)) = mset (matches st)"
    using assms by (simp add: full_scan_def)
  then have "mset (filter (\<lambda>r. selected season_arg team_arg (row_data r)) (scan (matches st)))
      = filter_mset (\<lambda>r. selected season_arg team_arg (row_data r)) (mset (matches st))"
    by (simp only: mset_filter)
  then have "mset (feature_frame to_datetime scan season_arg team_arg st) =
      image_mset (\<lambda>r. to_match_row to_datetime (row_data r))
        (filter_mset (\<lambda>r. selected season_arg team_arg (row_data r)) (mset (matches st)))"
    by (simp add: feature_frame_def get_matches_def)
  also have "\<dots> = image_mset (to_match_row to_datetime)
             (filter_mset (selected season_arg team_arg) (mset (map row_data (matches st))))"
    by (induction "matches st" arbitrary: st) (simp_all add: multiset.map_comp comp_def
        filter_mset_image_mset)
  finally show ?thesis .
qed

lemma feature_frame_perm:
  assumes "mset (map row_data (matches st')) = mset (map row_data (matches st))"
      and "full_scan scan" and "full_scan scan'"
  shows "mset (feature_frame to_datetime scan season_arg team_arg st)
           = mset (feature_frame to_datetime scan' season_arg team_arg st')"
  by (simp only: mset_feature_frame [OF assms(2)] mset_feature_frame [OF assms(3)] assms(1))

lemma set_determined_alphabetical: "set_determined alphabetical"
  unfolding set_determined_def alphabetical_def
proof (intro allI impI)
  fix xs ys :: "string list"
  assume "set xs = set ys"
  then show "sort (remdups xs) = sort (remdups ys)"
    by (intro sorted_distinct_set_unique) simp_all
qed

lemma full_scan_id: "full_scan id"
  by (simp add: full_scan_def)

section \<open>Form scenario\<close>

lemma length_scenario_ledger: "length scenario_ledger = 2"
  by (simp add: scenario_ledger_def)

lemma scenario_team_matches:
  "team_matches scenario_ledger ''A'' (Timestamp 2020 8 29) 5 = rev scenario_ledger"
  by (simp add: scenario_ledger_def team_matches_def df_head_def sort_values_date_desc_def
      sort_desc_def date_defs)

lemma scenario_fold:
  "fold (form_step ''A'') (rev scenario_ledger) form_acc0 =
     \<lparr>acc_points = 4, acc_goals_scored = 3, acc_goals_conceded = 1,
      acc_wins = 1, acc_draws = 1, acc_losses = 0\<rparr>"
  by (simp add: scenario_ledger_def form_step_def result_step_def form_acc0_def)

text \<open>
  C4. On the ledger [(2020, A vs B, 3-1, 2020-08-15), (2020, C vs A, 0-0, 2020-08-22)],
  the form of A at 2020-08-29 over a window of 5 is 4 points, 3 goals scored, 1 goal
  conceded and 2 matches played, in the feature builder and in the dataset builder.
\<close>

theorem form_scenario:
  "calculate_team_form scenario_ledger ''A'' (Timestamp 2020 8 29) 5 =
     Inr \<lparr>form_points = 4, form_goals_scored = 3, form_goals_conceded = 1,
          form_goal_difference = 2, form_wins = 1, form_draws = 1, form_losses = 0,
          form_matches_played = 2, form_points_per_match = 2, form_goals_per_match = 3 / 2,
          form_goals_conceded_per_match = 1 / 2\<rparr>
   \<and> ds_calculate_team_form scenario_ledger ''A'' (Timestamp 2020 8 29) 5 =
     \<lparr>ds_form_points = 4, ds_form_goals_scored = 3, ds_form_goals_conceded = 1,
      ds_form_goal_difference = 2, ds_form_wins = 1, ds_form_draws = 1, ds_form_losses = 0,
      ds_form_matches_played = 2\<rparr>"
  by (simp add: calculate_team_form_def ds_calculate_team_form_def scenario_team_matches
      scenario_fold py_truediv_def Let_def length_scenario_ledger)

section \<open>Accounting invariants of form and head-to-head\<close>

text \<open>
  C10. For a window size \<open>n \<ge> 0\<close>, the form result satisfies
  wins + draws + losses = matches_played, matches_played \<le> n and
  points = 3 * wins + 1 * draws; the head-to-head result satisfies
  team1_wins + team2_wins + draws = matches_played \<le> n. Neither computation raises.
\<close>

theorem form_accounting:
  assumes "0 \<le> n"
  shows "\<exists>f h. calculate_team_form df team d n = Inr f
           \<and> form_wins f + form_draws f + form_losses f = form_matches_played f
           \<and> form_matches_played f \<le> n
           \<and> form_points f = 3 * form_wins f + 1 * form_draws f
           \<and> calculate_head_to_head df team1 team2 d n = Inr h
           \<and> h2h_team1_wins h + h2h_team2_wins h + h2h_draws h = h2h_matches_played h
           \<and> h2h_matches_played h \<le> n"
proof -
  let ?tm = "team_matches df team d n"
  let ?hm = "h2h_matches df team1 team2 d n"
  have len_tm: "int (length ?tm) \<le> n"
    using assms by (simp add: team_matches_def length_df_head)
  have len_hm: "int (length ?hm) \<le> n"
    using assms by (simp add: h2h_matches_def length_df_head)
  note fc = form_fold_count [of team ?tm form_acc0]
  note fp = form_fold_points [of team ?tm form_acc0]
  note hc = h2h_fold_count [of team1 ?hm h2h_acc0]
  show ?thesis
    using len_tm len_hm fc fp hc
    by (simp add: calculate_team_form_Inr calculate_head_to_head_Inr Let_def form_acc0_def h2h_acc0_def)
qed

theorem form_accounting_witness:
  "(0::int) \<le> 5 \<and>
   (\<exists>f h. calculate_team_form scenario_ledger ''A'' (Timestamp 2020 8 29) 5 = Inr f
           \<and> form_wins f + form_draws f + form_losses f = form_matches_played f
           \<and> form_matches_played f \<le> 5
           \<and> form_points f = 3 * form_wins f + 1 * form_draws f
           \<and> calculate_head_to_head scenario_ledger ''A'' ''B'' (Timestamp 2020 8 29) 5 = Inr h
           \<and> h2h_team1_wins h + h2h_team2_wins h + h2h_draws h = h2h_matches_played h
           \<and> h2h_matches_played h \<le> 5)"
  using form_accounting [where n = 5 and df = scenario_ledger and team = "''A''"
      and d = "Timestamp 2020 8 29" and ?team1.0 = "''A''" and ?team2.0 = "''B''"]
  by simp

section \<open>Form of a team without history\<close>

lemma scenario_no_history: "qualifying scenario_ledger ''D'' (Timestamp 2020 8 29) = []"
  by (simp add: qualifying_def scenario_ledger_def)

text \<open>
  C9. When a team has no match strictly before the date, \<open>calculate_team_form\<close> returns 0
  for points, goals scored, goals conceded, goal difference, wins, draws, losses and
  matches played, and 0 for the three per-match ratios; \<open>calculate_momentum\<close> returns
  score 0 and 0 wins. For every input, neither raises a division by zero.
\<close>

theorem zero_history_form:
  "(qualifying df team d = [] \<longrightarrow>
      calculate_team_form df team d n = Inr zero_form
      \<and> calculate_momentum df team d n =
          Inr \<lparr>momentum_score = 0, recent_wins = 0, recent_form = ''Unknown'',
               momentum_per_match = None\<rparr>)
   \<and> calculate_team_form df team d n \<noteq> Inl ZeroDivisionError
   \<and> calculate_momentum df team d n \<noteq> Inl ZeroDivisionError"
proof (intro conjI impI)
  assume q: "qualifying df team d = []"
  show "calculate_team_form df team d n = Inr zero_form"
    by (simp add: calculate_team_form_Inr team_matches_empty [OF q] form_acc0_def zero_form_def)
  show "calculate_momentum df team d n =
          Inr \<lparr>momentum_score = 0, recent_wins = 0, recent_form = ''Unknown'',
               momentum_per_match = None\<rparr>"
    by (simp add: calculate_momentum_def team_matches_empty [OF q])
next
  show "calculate_team_form df team d n \<noteq> Inl ZeroDivisionError"
    by (rule calculate_team_form_no_error)
  show "calculate_momentum df team d n \<noteq> Inl ZeroDivisionError"
    by (rule calculate_momentum_no_error)
qed

theorem zero_history_form_witness:
  "qualifying scenario_ledger ''D'' (Timestamp 2020 8 29) = []
   \<and> calculate_team_form scenario_ledger ''D'' (Timestamp 2020 8 29) 5 = Inr zero_form
   \<and> calculate_momentum scenario_ledger ''D'' (Timestamp 2020 8 29) 3 =
          Inr \<lparr>momentum_score = 0, recent_wins = 0, recent_form = ''Unknown'',
               momentum_per_match = None\<rparr>"
  using zero_history_form [of scenario_ledger "''D''" "Timestamp 2020 8 29" 5]
    zero_history_form [of scenario_ledger "''D''" "Timestamp 2020 8 29" 3]
    scenario_no_history
  by simp

section \<open>Rest days\<close>

lemma rest_days_Max:
  "calculate_rest_days df team d =
     (if qualifying df team d = [] then 0
      else toordinal d - Max ((\<lambda>r. toordinal (date r)) ` set (qualifying df team d)))"
proof (cases "qualifying df team d = []")
  case True
  then show ?thesis
    by (simp add: calculate_rest_days_qualifying sort_values_date_desc_def sort_desc_Nil)
next
  case False
  let ?s = "sort_values_date_desc (qualifying df team d)"
  have ne: "?s \<noteq> []"
    using False by (metis sort_values_date_desc_def length_sort_desc length_0_conv)
  then obtain x rest where s: "?s = x # rest" by (cases ?s) auto
  have "toordinal (date (hd ?s)) = Max ((\<lambda>r. toordinal (date r)) ` set (qualifying df team d))"
    unfolding sort_values_date_desc_def using False by (rule hd_sort_desc_Max)
  then show ?thesis
    using False s by (simp add: calculate_rest_days_qualifying days_between_def)
qed

text \<open>
  C6. \<open>calculate_rest_days\<close> is 0 when the team has no match strictly before the date,
  and otherwise the number of days from the latest date among the team's matches strictly
  before the date to the date. In particular, when \<open>m\<close> is a match of the team before
  \<open>d2\<close> and no match of the team before \<open>d2\<close> is dated after \<open>m\<close>, the rest days at
  \<open>d2\<close> are \<open>(d2 - date m).days\<close>.
\<close>

theorem rest_days_spec:
  "calculate_rest_days df team d =
     (if qualifying df team d = [] then 0
      else toordinal d - Max ((\<lambda>r. toordinal (date r)) ` set (qualifying df team d)))
   \<and> (m \<in> set (qualifying df team d2)
        \<and> (\<forall>r \<in> set (qualifying df team d2). \<not> date_lt (date m) (date r))
      \<longrightarrow> calculate_rest_days df team d2 = days_between d2 (date m))"
proof (intro conjI impI)
  show "calculate_rest_days df team d =
     (if qualifying df team d = [] then 0
      else toordinal d - Max ((\<lambda>r. toordinal (date r)) ` set (qualifying df team d)))"
    by (rule rest_days_Max)
next
  assume a: "m \<in> set (qualifying df team d2)
        \<and> (\<forall>r \<in> set (qualifying df team d2). \<not> date_lt (date m) (date r))"
  then have ne: "qualifying df team d2 \<noteq> []" by auto
  have "Max ((\<lambda>r. toordinal (date r)) ` set (qualifying df team d2)) = toordinal (date m)"
    using a by (intro Max_eqI) (auto simp: date_lt_def not_less)
  then show "calculate_rest_days df team d2 = days_between d2 (date m)"
    using ne by (simp add: rest_days_Max days_between_def)
qed

lemma scenario_qualifying_A:
  "qualifying scenario_ledger ''A'' (Timestamp 2020 8 29) = scenario_ledger"
  by (simp add: qualifying_def scenario_ledger_def date_defs)

theorem rest_days_spec_witness:
  "scenario_ledger ! 1 \<in> set (qualifying scenario_ledger ''A'' (Timestamp 2020 8 29))
   \<and> \<not> date_lt (date (scenario_ledger ! 1)) (date (scenario_ledger ! 0))
   \<and> \<not> date_lt (date (scenario_ledger ! 1)) (date (scenario_ledger ! 1))
   \<and> date (scenario_ledger ! 1) = Timestamp 2020 8 22
   \<and> calculate_rest_days scenario_ledger ''A'' (Timestamp 2020 8 29) = 7"
  using rest_days_spec [of scenario_ledger "''A''" "Timestamp 2020 8 29" "scenario_ledger ! 1" "Timestamp 2020 8 29"]
  by (simp add: scenario_qualifying_A) (simp add: scenario_ledger_def date_defs)

section \<open>Head-to-head symmetry\<close>

lemma h2h_matches_commute: "h2h_matches df team1 team2 d n = h2h_matches df team2 team1 d n"
proof -
  have "filter (\<lambda>r. ((home_team r = team1 \<and> away_team r = team2) \<or>
              (home_team r = team2 \<and> away_team r = team1)) \<and> date_lt (date r) d) df
      = filter (\<lambda>r. ((home_team r = team2 \<and> away_team r = team1) \<or>
              (home_team r = team1 \<and> away_team r = team2)) \<and> date_lt (date r) d) df"
    by (rule filter_cong) auto
  then show ?thesis unfolding h2h_matches_def by (rule arg_cong)
qed

lemma h2h_step_mirror:
  assumes "home_team m = a \<and> away_team m = b \<or> home_team m = b \<and> away_team m = a"
      and "home_team m \<noteq> away_team m"
  shows "h2h_step b m (mirror_acc acc) = mirror_acc (h2h_step a m acc)"
  using assms
  by (auto simp: h2h_step_def h2h_result_step_def mirror_acc_def Let_def)

lemma h2h_fold_mirror:
  assumes "\<forall>m \<in> set ms. (home_team m = a \<and> away_team m = b \<or> home_team m = b \<and> away_team m = a)
             \<and> home_team m \<noteq> away_team m"
  shows "fold (h2h_step b) ms (mirror_acc acc) = mirror_acc (fold (h2h_step a) ms acc)"
  using assms
proof (induction ms arbitrary: acc)
  case Nil
  show ?case by simp
next
  case (Cons m ms)
  have hd: "(home_team m = a \<and> away_team m = b \<or> home_team m = b \<and> away_team m = a)"
    and ne: "home_team m \<noteq> away_team m"
    using Cons.prems by simp_all
  have step: "h2h_step b m (mirror_acc acc) = mirror_acc (h2h_step a m acc)"
    using hd ne by (rule h2h_step_mirror)
  have rest: "\<forall>m \<in> set ms. (home_team m = a \<and> away_team m = b \<or> home_team m = b \<and> away_team m = a)
             \<and> home_team m \<noteq> away_team m"
    using Cons.prems by simp
  have "fold (h2h_step b) (m # ms) (mirror_acc acc)
          = fold (h2h_step b) ms (h2h_step b m (mirror_acc acc))"
    by simp
  also have "\<dots> = fold (h2h_step b) ms (mirror_acc (h2h_step a m acc))"
    by (simp only: step)
  also have "\<dots> = mirror_acc (fold (h2h_step a) ms (h2h_step a m acc))"
    by (rule Cons.IH [OF rest])
  finally show ?case by simp
qed

lemma h2h_matches_pair:
  assumes "m \<in> set (h2h_matches df a b d n)"
  shows "m \<in> set df \<and> (home_team m = a \<and> away_team m = b \<or> home_team m = b \<and> away_team m = a)"
proof -
  define P where "P = (\<lambda>r::match_row. ((home_team r = a \<and> away_team r = b) \<or>
                      (home_team r = b \<and> away_team r = a)) \<and> date_lt (date r) d)"
  have "h2h_matches df a b d n = df_head n (sort_values_date_desc (filter P df))"
    by (simp add: h2h_matches_def P_def)
  then have "set (h2h_matches df a b d n) \<subseteq> set (sort_values_date_desc (filter P df))"
    by (simp add: set_df_head)
  also have "\<dots> = set (filter P df)"
    by (simp add: sort_values_date_desc_def set_sort_desc)
  finally have "m \<in> set (filter P df)" using assms by blast
  then have "m \<in> set df" and "P m" by simp_all
  then show ?thesis by (simp add: P_def)
qed

text \<open>
  C3. For teams \<open>a\<close>, \<open>b\<close> with \<open>a \<noteq> b\<close>, or on a ledger in which no match has the
  same home and away team (the invariant of the data model), the head-to-head of
  \<open>(a, b)\<close> and of \<open>(b, a)\<close> at any date and window select the same matches, neither
  raises, and the results mirror each other: team1_wins and team2_wins are exchanged,
  team1_goals and team2_goals are exchanged, draws and matches_played are equal.
\<close>

theorem h2h_symmetry:
  assumes "a \<noteq> b \<or> (\<forall>r \<in> set df. home_team r \<noteq> away_team r)"
  shows "h2h_matches df a b d n = h2h_matches df b a d n
     \<and> (\<exists>x y. calculate_head_to_head df a b d n = Inr x
            \<and> calculate_head_to_head df b a d n = Inr y
            \<and> h2h_team1_wins x = h2h_team2_wins y
            \<and> h2h_team2_wins x = h2h_team1_wins y
            \<and> h2h_team1_goals x = h2h_team2_goals y
            \<and> h2h_team2_goals x = h2h_team1_goals y
            \<and> h2h_draws x = h2h_draws y
            \<and> h2h_matches_played x = h2h_matches_played y)"
proof -
  define hm where "hm = h2h_matches df a b d n"
  define fa where "fa = fold (h2h_step a) hm h2h_acc0"
  define fb where "fb = fold (h2h_step b) hm h2h_acc0"
  have comm: "h2h_matches df b a d n = hm"
    unfolding hm_def by (rule h2h_matches_commute)
  have "\<forall>m \<in> set hm. (home_team m = a \<and> away_team m = b \<or> home_team m = b \<and> away_team m = a)
             \<and> home_team m \<noteq> away_team m"
  proof
    fix m assume "m \<in> set hm"
    then have "m \<in> set (h2h_matches df a b d n)" by (simp add: hm_def)
    from h2h_matches_pair [OF this] assms
    show "(home_team m = a \<and> away_team m = b \<or> home_team m = b \<and> away_team m = a)
             \<and> home_team m \<noteq> away_team m"
      by auto
  qed
  then have "fold (h2h_step b) hm (mirror_acc h2h_acc0) = mirror_acc (fold (h2h_step a) hm h2h_acc0)"
    by (rule h2h_fold_mirror)
  moreover have "mirror_acc h2h_acc0 = h2h_acc0"
    by (simp add: mirror_acc_def h2h_acc0_def)
  ultimately have fb: "fb = mirror_acc fa"
    by (simp add: fa_def fb_def)
  have xa: "calculate_head_to_head df a b d n =
      Inr \<lparr>h2h_team1_wins = acc_team1_wins fa,
                 h2h_team2_wins = acc_team2_wins fa,
                 h2h_draws = acc_h2h_draws fa,
                 h2h_team1_goals = acc_team1_goals fa,
                 h2h_team2_goals = acc_team2_goals fa,
                 h2h_matches_played = int (length hm),
                 h2h_team1_win_rate = of_int (acc_team1_wins fa) / of_int (max (int (length hm)) 1),
                 h2h_team2_win_rate = of_int (acc_team2_wins fa) / of_int (max (int (length hm)) 1),
                 h2h_draw_rate = of_int (acc_h2h_draws fa) / of_int (max (int (length hm)) 1),
                 h2h_goals_per_match =
                   of_int (acc_team1_goals fa + acc_team2_goals fa) / of_int (max (int (length hm)) 1)\<rparr>"
    unfolding calculate_head_to_head_Inr Let_def fa_def hm_def by (rule refl)
  have xb: "calculate_head_to_head df b a d n =
      Inr \<lparr>h2h_team1_wins = acc_team1_wins fb,
                 h2h_team2_wins = acc_team2_wins fb,
                 h2h_draws = acc_h2h_draws fb,
                 h2h_team1_goals = acc_team1_goals fb,
                 h2h_team2_goals = acc_team2_goals fb,
                 h2h_matches_played = int (length hm),
                 h2h_team1_win_rate = of_int (acc_team1_wins fb) / of_int (max (int (length hm)) 1),
                 h2h_team2_win_rate = of_int (acc_team2_wins fb) / of_int (max (int (length hm)) 1),
                 h2h_draw_rate = of_int (acc_h2h_draws fb) / of_int (max (int (length hm)) 1),
                 h2h_goals_per_match =
                   of_int (acc_team1_goals fb + acc_team2_goals fb) / of_int (max (int (length hm)) 1)\<rparr>"
    unfolding calculate_head_to_head_Inr Let_def comm fb_def by (rule refl)
  have "h2h_matches df a b d n = h2h_matches df b a d n"
    by (rule h2h_matches_commute)
  then show ?thesis
    unfolding xa xb fb by (simp add: mirror_acc_def)
qed

theorem h2h_symmetry_witness:
  "''A'' \<noteq> ''B''
   \<and> h2h_matches derby_ledger ''A'' ''B'' (Timestamp 2021 5 1) 10
       = h2h_matches derby_ledger ''B'' ''A'' (Timestamp 2021 5 1) 10
   \<and> (\<exists>x y. calculate_head_to_head derby_ledger ''A'' ''B'' (Timestamp 2021 5 1) 10 = Inr x
            \<and> calculate_head_to_head derby_ledger ''B'' ''A'' (Timestamp 2021 5 1) 10 = Inr y
            \<and> h2h_team1_wins x = h2h_team2_wins y
            \<and> h2h_team2_wins x = h2h_team1_wins y
            \<and> h2h_team1_goals x = h2h_team2_goals y
            \<and> h2h_team2_goals x = h2h_team1_goals y
            \<and> h2h_draws x = h2h_draws y
            \<and> h2h_matches_played x = h2h_matches_played y)"
proof -
  have ne: "''A'' \<noteq> ''B''" by simp
  then have "''A'' \<noteq> ''B'' \<or> (\<forall>r \<in> set derby_ledger. home_team r \<noteq> away_team r)"
    by (rule disjI1)
  from h2h_symmetry [OF this, of "Timestamp 2021 5 1" 10] ne
  show ?thesis by (rule_tac conjI)
qed

section \<open>Appending to the match storage\<close>

lemma matches_add_match:
  "matches (snd (add_match st m)) =
     filter (\<lambda>r. unique_key (row_data r) \<noteq> unique_key m) (matches st)
       @ [\<lparr>row_id = seq st + 1, row_data = m\<rparr>]"
  by (simp add: add_match_def update_metadata_def insert_or_replace_def)

lemma filter_key_remove1:
  assumes "distinct (map f xs)" "r \<in> set xs"
  shows "filter (\<lambda>x. f x \<noteq> f r) xs = remove1 r xs"
  using assms
proof (induction xs)
  case Nil
  then show ?case by simp
next
  case (Cons x xs)
  show ?case
  proof (cases "x = r")
    case True
    have "f r \<notin> f ` set xs" using Cons.prems True by simp
    then have "\<forall>y \<in> set xs. f y \<noteq> f r" by (metis imageI)
    then have "filter (\<lambda>x. f x \<noteq> f r) xs = xs" by (simp add: filter_id_conv)
    then show ?thesis using True by simp
  next
    case False
    then have "r \<in> set xs" using Cons.prems by simp
    moreover from this have "f x \<noteq> f r" using Cons.prems by (metis distinct.simps(2) imageI list.simps(9) list.set_map)
    ultimately show ?thesis using Cons False by simp
  qed
qed

lemma unique_ok_add_match:
  assumes "unique_ok st"
  shows "unique_ok (snd (add_match st m))"
proof -
  let ?k = "\<lambda>r. unique_key (row_data r)"
  let ?kept = "filter (\<lambda>r. ?k r \<noteq> unique_key m) (matches st)"
  have "distinct (map ?k ?kept)"
    using assms by (simp add: unique_ok_def distinct_map_filter)
  moreover have "unique_key m \<notin> set (map ?k ?kept)" by auto
  ultimately show ?thesis
    by (simp add: unique_ok_def matches_add_match)
qed




lemma iso_2020_08_15: "iso_date ''2020-08-15'' = Timestamp 2020 8 15"
  by (simp add: iso_date_def digits_val_def)

lemma double_frames:
  "feature_frame iso_date id None None double_storage =
     [to_match_row iso_date early_match, to_match_row iso_date same_day_away]"
  "feature_frame iso_date id None None (snd (add_match double_storage early_match)) =
     [to_match_row iso_date same_day_away, to_match_row iso_date early_match]"
  by (simp_all add: feature_frame_def get_matches_def matches_add_match selected_def)
     (simp_all add: double_storage_def early_match_def same_day_away_def unique_key_def)

lemma double_rows:
  "to_match_row iso_date early_match =
     \<lparr>season = 2020, date = Timestamp 2020 8 15, home_team = ''A'', away_team = ''B'',
      home_goals = 3, away_goals = 1\<rparr>"
  "to_match_row iso_date same_day_away =
     \<lparr>season = 2020, date = Timestamp 2020 8 15, home_team = ''C'', away_team = ''A'',
      home_goals = 0, away_goals = 0\<rparr>"
  by (simp_all add: to_match_row_def early_match_def same_day_away_def iso_2020_08_15)

lemma double_form_before:
  "calculate_team_form (feature_frame iso_date id None None double_storage) ''A''
       (Timestamp 2020 8 22) 1 =
     Inr \<lparr>form_points = 3, form_goals_scored = 3, form_goals_conceded = 1,
          form_goal_difference = 2, form_wins = 1, form_draws = 0, form_losses = 0,
          form_matches_played = 1, form_points_per_match = 3, form_goals_per_match = 3,
          form_goals_conceded_per_match = 1\<rparr>"
  by (simp add: double_frames double_rows calculate_team_form_Inr team_matches_def df_head_def
      sort_values_date_desc_def sort_desc_def date_defs form_step_def result_step_def
      form_acc0_def Let_def)

lemma double_form_after:
  "calculate_team_form
       (feature_frame iso_date id None None (snd (add_match double_storage early_match))) ''A''
       (Timestamp 2020 8 22) 1 =
     Inr \<lparr>form_points = 1, form_goals_scored = 0, form_goals_conceded = 0,
          form_goal_difference = 0, form_wins = 0, form_draws = 1, form_losses = 0,
          form_matches_played = 1, form_points_per_match = 1, form_goals_per_match = 0,
          form_goals_conceded_per_match = 0\<rparr>"
  by (simp add: double_frames double_rows calculate_team_form_Inr team_matches_def df_head_def
      sort_values_date_desc_def sort_desc_def date_defs form_step_def result_step_def
      form_acc0_def Let_def)


lemma draws_frames:
  "feature_frame iso_date id None None draws_storage = draws_frame"
  "feature_frame iso_date id None None (snd (add_match draws_storage draw_AB)) = rev draws_frame"
  by (simp_all add: feature_frame_def get_matches_def matches_add_match selected_def)
     (simp_all add: draws_storage_def draw_AB_def draw_CD_def unique_key_def to_match_row_def
        iso_2020_08_15 draws_frame_def)

lemma draws_season:
  "season_matches_of draws_frame (Timestamp 2020 8 22) = draws_frame"
  "season_matches_of (rev draws_frame) (Timestamp 2020 8 22) = rev draws_frame"
  by (simp_all add: season_matches_of_def season_year_of_def draws_frame_def date_defs)

lemma draws_teams:
  "league_teams draws_frame = [''A'', ''C'', ''B'', ''D'']"
  "league_teams (rev draws_frame) = [''C'', ''A'', ''D'', ''B'']"
  by (simp_all add: league_teams_def draws_frame_def)

lemma draws_team_matches:
  "team_matches draws_frame ''A'' (Timestamp 2020 8 22) 100 = [draws_frame ! 0]"
  "team_matches draws_frame ''B'' (Timestamp 2020 8 22) 100 = [draws_frame ! 0]"
  "team_matches draws_frame ''C'' (Timestamp 2020 8 22) 100 = [draws_frame ! 1]"
  "team_matches draws_frame ''D'' (Timestamp 2020 8 22) 100 = [draws_frame ! 1]"
  "team_matches (rev draws_frame) ''A'' (Timestamp 2020 8 22) 100 = [draws_frame ! 0]"
  "team_matches (rev draws_frame) ''B'' (Timestamp 2020 8 22) 100 = [draws_frame ! 0]"
  "team_matches (rev draws_frame) ''C'' (Timestamp 2020 8 22) 100 = [draws_frame ! 1]"
  "team_matches (rev draws_frame) ''D'' (Timestamp 2020 8 22) 100 = [draws_frame ! 1]"
  by (simp_all add: team_matches_def draws_frame_def df_head_def sort_values_date_desc_def
      sort_desc_def date_defs)

lemma draws_rows:
  "league_row draws_frame (Timestamp 2020 8 22) ''A'' =
     \<lparr>tr_team = ''A'', tr_points = 1, tr_goal_difference = 0, tr_goals_scored = 1,
      tr_matches_played = 1\<rparr>"
  "league_row draws_frame (Timestamp 2020 8 22) ''B'' =
     \<lparr>tr_team = ''B'', tr_points = 1, tr_goal_difference = 0, tr_goals_scored = 1,
      tr_matches_played = 1\<rparr>"
  "league_row draws_frame (Timestamp 2020 8 22) ''C'' =
     \<lparr>tr_team = ''C'', tr_points = 1, tr_goal_difference = 0, tr_goals_scored = 1,
      tr_matches_played = 1\<rparr>"
  "league_row draws_frame (Timestamp 2020 8 22) ''D'' =
     \<lparr>tr_team = ''D'', tr_points = 1, tr_goal_difference = 0, tr_goals_scored = 1,
      tr_matches_played = 1\<rparr>"
  "league_row (rev draws_frame) (Timestamp 2020 8 22) ''A'' =
     \<lparr>tr_team = ''A'', tr_points = 1, tr_goal_difference = 0, tr_goals_scored = 1,
      tr_matches_played = 1\<rparr>"
  "league_row (rev draws_frame) (Timestamp 2020 8 22) ''B'' =
     \<lparr>tr_team = ''B'', tr_points = 1, tr_goal_difference = 0, tr_goals_scored = 1,
      tr_matches_played = 1\<rparr>"
  "league_row (rev draws_frame) (Timestamp 2020 8 22) ''C'' =
     \<lparr>tr_team = ''C'', tr_points = 1, tr_goal_difference = 0, tr_goals_scored = 1,
      tr_matches_played = 1\<rparr>"
  "league_row (rev draws_frame) (Timestamp 2020 8 22) ''D'' =
     \<lparr>tr_team = ''D'', tr_points = 1, tr_goal_difference = 0, tr_goals_scored = 1,
      tr_matches_played = 1\<rparr>"
  by (simp_all add: league_row_def draws_team_matches Let_def)
     (simp_all add: draws_frame_def form_step_def result_step_def form_acc0_def)

lemma draws_frame_nonempty: "draws_frame \<noteq> []" "rev draws_frame \<noteq> []"
  by (simp_all add: draws_frame_def)

lemma draws_position_before:
  "calculate_league_position id (feature_frame iso_date id None None draws_storage) ''A''
       (Timestamp 2020 8 22) =
     Inr \<lparr>league_position = 1, league_points = 1, league_goal_difference = 0,
          league_matches_played = 1\<rparr>"
  by (simp add: draws_frames calculate_league_position_table draws_season draws_frame_nonempty
      draws_teams draws_rows table_key_def sort_league_table_def sort_desc_def)

lemma draws_position_after:
  "calculate_league_position id
       (feature_frame iso_date id None None (snd (add_match draws_storage draw_AB))) ''A''
       (Timestamp 2020 8 22) =
     Inr \<lparr>league_position = 2, league_points = 1, league_goal_difference = 0,
          league_matches_played = 1\<rparr>"
  by (simp add: draws_frames calculate_league_position_table draws_season draws_frame_nonempty
      draws_teams draws_rows table_key_def sort_league_table_def sort_desc_def)

text \<open>
  C8, as stated, fails, in three ways. (1) The storage holds the 2020 match A vs B of
  2020-08-15 as matchday 1; appending a match with the same season, home team, away team
  and date labelled matchday 2 leaves two stored matches. (2) Re-appending a match that
  is stored, identical in every field, gives the row a fresh id and moves it behind the
  other rows. When A has two matches on one day and the engine returns rows equal on
  (season, matchday, date) in id order, the frame lists the two matches in the other
  order, and the form of A over a window of 1 changes from 3 points to 1 point. (3) When
  the iteration order of the team set follows the order in which the teams are met, the
  league position of A among four level teams changes from 1 to 2.
\<close>

theorem reappend_counterexample:
  "md_season early_match_relabelled = md_season early_match
   \<and> md_home_team early_match_relabelled = md_home_team early_match
   \<and> md_away_team early_match_relabelled = md_away_team early_match
   \<and> md_date early_match_relabelled = md_date early_match
   \<and> map row_data (matches early_storage) = [early_match]
   \<and> length (matches (snd (add_match early_storage early_match_relabelled))) = 2
   \<and> map row_data (matches double_storage) = [early_match, same_day_away]
   \<and> calculate_team_form (feature_frame iso_date id None None double_storage) ''A''
         (Timestamp 2020 8 22) 1 =
       Inr \<lparr>form_points = 3, form_goals_scored = 3, form_goals_conceded = 1,
            form_goal_difference = 2, form_wins = 1, form_draws = 0, form_losses = 0,
            form_matches_played = 1, form_points_per_match = 3, form_goals_per_match = 3,
            form_goals_conceded_per_match = 1\<rparr>
   \<and> calculate_team_form
         (feature_frame iso_date id None None (snd (add_match double_storage early_match)))
         ''A'' (Timestamp 2020 8 22) 1 =
       Inr \<lparr>form_points = 1, form_goals_scored = 0, form_goals_conceded = 0,
            form_goal_difference = 0, form_wins = 0, form_draws = 1, form_losses = 0,
            form_matches_played = 1, form_points_per_match = 1, form_goals_per_match = 0,
            form_goals_conceded_per_match = 0\<rparr>
   \<and> map row_data (matches draws_storage) = [draw_AB, draw_CD]
   \<and> calculate_league_position id (feature_frame iso_date id None None draws_storage) ''A''
         (Timestamp 2020 8 22) =
       Inr \<lparr>league_position = 1, league_points = 1, league_goal_difference = 0,
            league_matches_played = 1\<rparr>
   \<and> calculate_league_position id
         (feature_frame iso_date id None None (snd (add_match draws_storage draw_AB))) ''A''
         (Timestamp 2020 8 22) =
       Inr \<lparr>league_position = 2, league_points = 1, league_goal_difference = 0,
            league_matches_played = 1\<rparr>"
proof -
  have a: "md_season early_match_relabelled = md_season early_match
     \<and> md_home_team early_match_relabelled = md_home_team early_match
     \<and> md_away_team early_match_relabelled = md_away_team early_match
     \<and> md_date early_match_relabelled = md_date early_match
     \<and> map row_data (matches early_storage) = [early_match]
     \<and> length (matches (snd (add_match early_storage early_match_relabelled))) = 2"
    by (simp add: matches_add_match early_match_relabelled_def)
       (simp add: early_storage_def early_match_def unique_key_def)
  have b: "map row_data (matches double_storage) = [early_match, same_day_away]"
    by (simp add: double_storage_def)
  have c: "map row_data (matches draws_storage) = [draw_AB, draw_CD]"
    by (simp add: draws_storage_def)
  show ?thesis
    using a b c double_form_before double_form_after draws_position_before
      draws_position_after
    by (intro conjI) simp_all
qed


lemma week_frame:
  "feature_frame iso_date id None None week_storage =
     [\<lparr>season = 2020, date = Timestamp 2020 8 15, home_team = ''A'', away_team = ''B'',
       home_goals = 3, away_goals = 1\<rparr>,
      \<lparr>season = 2020, date = Timestamp 2020 8 22, home_team = ''C'', away_team = ''A'',
       home_goals = 0, away_goals = 0\<rparr>]"
  by (simp add: feature_frame_def get_matches_def selected_def week_storage_def
      early_match_def late_match_def to_match_row_def iso_date_def digits_val_def)

lemma week_rows_after:
  "map row_id (matches (snd (add_match week_storage early_match))) = [2, 3]"
  by (simp add: matches_add_match)
     (simp add: week_storage_def early_match_def late_match_def unique_key_def)

lemma week_once_a_day: "once_a_day (feature_frame iso_date id None None week_storage)"
  by (simp add: week_frame once_a_day_def plays_def date_defs)

text \<open>
  C8, amended. A stored match is identified by (season, matchday, home_team, away_team).
  On a table that satisfies this uniqueness constraint, appending a match whose key is
  already stored keeps the number of stored matches and the constraint. When the stored
  match equals the appended one in every field, the stored matches are the same
  collection as before, and every value the feature builder computes for a team, a pair
  of teams and a date (form, home or away form, head-to-head, league position, rest days,
  momentum, scoring patterns, strength of schedule) is the same on the frame read before
  and on the frame read after the append, in whatever order the engine scans the rows,
  provided that no team has two matches of the frame on one date and that the iteration
  order of a team set depends on the set alone.
\<close>

theorem reappend_same_key:
  assumes "unique_ok st" and "r \<in> set (matches st)"
      and "unique_key (row_data r) = unique_key m"
  shows "length (matches (snd (add_match st m))) = length (matches st)
       \<and> unique_ok (snd (add_match st m))
       \<and> (row_data r = m \<longrightarrow>
            mset (map row_data (matches (snd (add_match st m))))
              = mset (map row_data (matches st))
            \<and> (full_scan scan \<and> full_scan scan' \<and> set_determined set_iter
                  \<and> once_a_day (feature_frame to_datetime scan season_arg team_arg st)
                \<longrightarrow> same_feature_values set_iter
                      (feature_frame to_datetime scan season_arg team_arg st)
                      (feature_frame to_datetime scan' season_arg team_arg
                         (snd (add_match st m)))))"
proof -
  let ?k = "\<lambda>r. unique_key (row_data r)"
  have "filter (\<lambda>x. ?k x \<noteq> ?k r) (matches st) = remove1 r (matches st)"
    using assms(1,2) unfolding unique_ok_def by (rule filter_key_remove1)
  then have m': "matches (snd (add_match st m)) =
      remove1 r (matches st) @ [\<lparr>row_id = seq st + 1, row_data = m\<rparr>]"
    using assms(3) by (simp add: matches_add_match)
  have len: "length (matches (snd (add_match st m))) = length (matches st)"
    using assms(2) by (simp add: m' length_remove1) (cases "matches st"; simp)
  have ms: "mset (map row_data (matches (snd (add_match st m))))
              = mset (map row_data (matches st))" if "row_data r = m"
  proof -
    have "mset (matches st) = add_mset r (mset (remove1 r (matches st)))"
      using assms(2) by simp
    then have "image_mset row_data (mset (matches st))
        = add_mset (row_data r) (image_mset row_data (mset (remove1 r (matches st))))"
      by (metis image_mset_add_mset)
    then show ?thesis using that by (simp add: m')
  qed
  have sf: "same_feature_values set_iter
              (feature_frame to_datetime scan season_arg team_arg st)
              (feature_frame to_datetime scan' season_arg team_arg (snd (add_match st m)))"
    if "row_data r = m"
      and h: "full_scan scan \<and> full_scan scan' \<and> set_determined set_iter
                \<and> once_a_day (feature_frame to_datetime scan season_arg team_arg st)"
  proof -
    have "mset (feature_frame to_datetime scan season_arg team_arg st)
        = mset (feature_frame to_datetime scan' season_arg team_arg (snd (add_match st m)))"
      using ms [OF that(1)] h by (intro feature_frame_perm) simp_all
    then show ?thesis
      using h by (intro same_feature_values_perm) simp_all
  qed
  show ?thesis using len ms sf unique_ok_add_match [OF assms(1)] by blast
qed

theorem reappend_same_key_witness:
  "unique_ok week_storage
   \<and> \<lparr>row_id = 1, row_data = early_match\<rparr> \<in> set (matches week_storage)
   \<and> full_scan id \<and> set_determined alphabetical
   \<and> once_a_day (feature_frame iso_date id None None week_storage)
   \<and> map row_id (matches week_storage) = [1, 2]
   \<and> map row_id (matches (snd (add_match week_storage early_match))) = [2, 3]
   \<and> length (matches (snd (add_match week_storage early_match))) = length (matches week_storage)
   \<and> unique_ok (snd (add_match week_storage early_match))
   \<and> mset (map row_data (matches (snd (add_match week_storage early_match))))
              = mset (map row_data (matches week_storage))
   \<and> same_feature_values alphabetical
        (feature_frame iso_date id None None week_storage)
        (feature_frame iso_date id None None (snd (add_match week_storage early_match)))"
proof -
  have a: "unique_ok week_storage"
    by (simp add: unique_ok_def week_storage_def unique_key_def early_match_def late_match_def)
  have b: "\<lparr>row_id = 1, row_data = early_match\<rparr> \<in> set (matches week_storage)"
    by (simp add: week_storage_def)
  have c: "map row_id (matches week_storage) = [1, 2]"
    by (simp add: week_storage_def)
  from reappend_same_key [OF a b, of early_match id id alphabetical iso_date None None]
    a b c week_once_a_day week_rows_after full_scan_id set_determined_alphabetical
  show ?thesis by simp
qed


section \<open>Teams absent from the table\<close>

lemma scenario_season_matches:
  "season_matches_of scenario_ledger (Timestamp 2020 8 29) = scenario_ledger"
  by (simp add: season_matches_of_def season_year_of_def scenario_ledger_def date_defs)

lemma scenario_ds_season_matches:
  "ds_season_matches_of scenario_ledger (Timestamp 2020 8 29) = scenario_ledger"
  by (simp add: ds_season_matches_of_def scenario_ledger_def date_defs)

lemma scenario_league_teams: "league_teams scenario_ledger = [''C'', ''B'', ''A'']"
  by (simp add: league_teams_def scenario_ledger_def)

text \<open>
  C5, as stated, fails: on the scenario ledger the season-to-date table at 2020-08-29
  has the three teams A, B and C; team D, which has no match, is given position 20, not
  position 3.
\<close>

theorem absent_team_counterexample:
  "league_teams (season_matches_of scenario_ledger (Timestamp 2020 8 29)) = [''C'', ''B'', ''A'']
   \<and> calculate_league_position id scenario_ledger ''D'' (Timestamp 2020 8 29) =
        Inr \<lparr>league_position = 20, league_points = 0, league_goal_difference = 0,
             league_matches_played = 0\<rparr>
   \<and> league_teams (ds_season_matches_of scenario_ledger (Timestamp 2020 8 29)) = [''C'', ''B'', ''A'']
   \<and> ds_calculate_league_position id scenario_ledger ''D'' (Timestamp 2020 8 29) =
        \<lparr>ds_position = 20, ds_points = 0, ds_goal_difference = 0\<rparr>"
proof -
  have "''D'' \<notin> set (id (league_teams (season_matches_of scenario_ledger (Timestamp 2020 8 29))))"
    by (simp add: scenario_season_matches scenario_league_teams)
  then have fb: "calculate_league_position id scenario_ledger ''D'' (Timestamp 2020 8 29)
      = Inr default_league_pos"
    by (rule absent_team_fb)
  have "''D'' \<notin> set (id (league_teams (ds_season_matches_of scenario_ledger (Timestamp 2020 8 29))))"
    by (simp add: scenario_ds_season_matches scenario_league_teams)
  then have ds: "ds_calculate_league_position id scenario_ledger ''D'' (Timestamp 2020 8 29)
      = ds_default_league_pos"
    by (rule absent_team_ds)
  show ?thesis
    by (simp add: fb ds scenario_season_matches scenario_ds_season_matches scenario_league_teams
        default_league_pos_def ds_default_league_pos_def)
qed

text \<open>
  C5, amended. When the iteration of the team set yields exactly its elements, a team
  with no match among the season-to-date matches is given the fixed position 20 with
  zero points and zero goal difference (and zero matches played), in the feature builder
  and in the dataset builder; the position does not depend on the number of teams seen.
\<close>

theorem absent_team_default:
  assumes "\<forall>ts. set (set_iter ts) = set ts"
  shows "((\<forall>r \<in> set (season_matches_of df d). home_team r \<noteq> team \<and> away_team r \<noteq> team) \<longrightarrow>
           calculate_league_position set_iter df team d =
             Inr \<lparr>league_position = 20, league_points = 0, league_goal_difference = 0,
                  league_matches_played = 0\<rparr>)
       \<and> ((\<forall>r \<in> set (ds_season_matches_of df d). home_team r \<noteq> team \<and> away_team r \<noteq> team) \<longrightarrow>
           ds_calculate_league_position set_iter df team d =
             \<lparr>ds_position = 20, ds_points = 0, ds_goal_difference = 0\<rparr>)"
proof (intro conjI impI)
  assume "\<forall>r \<in> set (season_matches_of df d). home_team r \<noteq> team \<and> away_team r \<noteq> team"
  then have "team \<notin> set (league_teams (season_matches_of df d))"
    by (rule not_in_league_teams)
  then have "team \<notin> set (set_iter (league_teams (season_matches_of df d)))"
    using assms by simp
  then show "calculate_league_position set_iter df team d =
             Inr \<lparr>league_position = 20, league_points = 0, league_goal_difference = 0,
                  league_matches_played = 0\<rparr>"
    by (simp add: absent_team_fb default_league_pos_def)
next
  assume "\<forall>r \<in> set (ds_season_matches_of df d). home_team r \<noteq> team \<and> away_team r \<noteq> team"
  then have "team \<notin> set (league_teams (ds_season_matches_of df d))"
    by (rule not_in_league_teams)
  then have "team \<notin> set (set_iter (league_teams (ds_season_matches_of df d)))"
    using assms by simp
  then show "ds_calculate_league_position set_iter df team d =
             \<lparr>ds_position = 20, ds_points = 0, ds_goal_difference = 0\<rparr>"
    by (simp add: absent_team_ds ds_default_league_pos_def)
qed

theorem absent_team_default_witness:
  "(\<forall>ts::string list. set (id ts) = set ts)
   \<and> home_team (scenario_ledger ! 0) \<noteq> ''D'' \<and> away_team (scenario_ledger ! 0) \<noteq> ''D''
   \<and> home_team (scenario_ledger ! 1) \<noteq> ''D'' \<and> away_team (scenario_ledger ! 1) \<noteq> ''D''
   \<and> season_matches_of scenario_ledger (Timestamp 2020 8 29) = scenario_ledger
   \<and> ds_season_matches_of scenario_ledger (Timestamp 2020 8 29) = scenario_ledger
   \<and> calculate_league_position id scenario_ledger ''D'' (Timestamp 2020 8 29) =
        Inr \<lparr>league_position = 20, league_points = 0, league_goal_difference = 0,
             league_matches_played = 0\<rparr>
   \<and> ds_calculate_league_position id scenario_ledger ''D'' (Timestamp 2020 8 29) =
        \<lparr>ds_position = 20, ds_points = 0, ds_goal_difference = 0\<rparr>"
proof -
  have e: "\<forall>ts::string list. set (id ts) = set ts" by simp
  have h: "\<forall>r \<in> set scenario_ledger. home_team r \<noteq> ''D'' \<and> away_team r \<noteq> ''D''"
    by (simp add: scenario_ledger_def)
  have n: "home_team (scenario_ledger ! 0) \<noteq> ''D'' \<and> away_team (scenario_ledger ! 0) \<noteq> ''D''
     \<and> home_team (scenario_ledger ! 1) \<noteq> ''D'' \<and> away_team (scenario_ledger ! 1) \<noteq> ''D''"
    by (simp add: scenario_ledger_def)
  from absent_team_default [of id scenario_ledger "Timestamp 2020 8 29" "''D''"] e h n
  show ?thesis
    by (simp add: scenario_season_matches scenario_ds_season_matches)
qed

section \<open>Standings order\<close>

lemma tie_season_matches: "season_matches_of tie_ledger (Timestamp 2020 8 22) = tie_ledger"
  by (simp add: season_matches_of_def season_year_of_def tie_ledger_def date_defs)

lemma tie_league_teams: "league_teams tie_ledger = [''A'', ''B'']"
  by (simp add: league_teams_def tie_ledger_def)

lemma tie_team_matches:
  "team_matches tie_ledger ''A'' (Timestamp 2020 8 22) 100 = tie_ledger"
  "team_matches tie_ledger ''B'' (Timestamp 2020 8 22) 100 = tie_ledger"
  by (simp_all add: team_matches_def tie_ledger_def df_head_def sort_values_date_desc_def
      sort_desc_def date_defs)

lemma tie_rows:
  "league_row tie_ledger (Timestamp 2020 8 22) ''A'' =
     \<lparr>tr_team = ''A'', tr_points = 1, tr_goal_difference = 0, tr_goals_scored = 1,
      tr_matches_played = 1\<rparr>"
  "league_row tie_ledger (Timestamp 2020 8 22) ''B'' =
     \<lparr>tr_team = ''B'', tr_points = 1, tr_goal_difference = 0, tr_goals_scored = 1,
      tr_matches_played = 1\<rparr>"
  by (simp_all add: league_row_def tie_team_matches Let_def)
     (simp_all add: tie_ledger_def form_step_def result_step_def form_acc0_def)

lemma tie_ledger_nonempty: "tie_ledger \<noteq> []"
  by (simp add: tie_ledger_def)

lemma tie_ds_season_matches: "ds_season_matches_of tie_ledger (Timestamp 2020 8 22) = tie_ledger"
  by (simp add: ds_season_matches_of_def tie_ledger_def date_defs)

lemma tie_qualifying:
  "qualifying tie_ledger ''A'' (Timestamp 2020 8 22) = tie_ledger"
  "qualifying tie_ledger ''B'' (Timestamp 2020 8 22) = tie_ledger"
  by (simp_all add: qualifying_def tie_ledger_def date_defs)

lemma tie_plays:
  "filter (plays ''A'') tie_ledger = tie_ledger"
  "filter (plays ''B'') tie_ledger = tie_ledger"
  by (simp_all add: plays_def tie_ledger_def)

lemma tie_season_only:
  "season_only tie_ledger tie_ledger ''A'' (Timestamp 2020 8 22)"
  "season_only tie_ledger tie_ledger ''B'' (Timestamp 2020 8 22)"
  by (simp_all add: season_only_def tie_qualifying tie_plays) (simp_all add: tie_ledger_def)

lemma tie_standing:
  "season_standing tie_ledger ''A'' = (1, 0, 1)"
  "season_standing tie_ledger ''B'' = (1, 0, 1)"
  by (simp_all add: season_standing_def tie_plays Let_def)
     (simp_all add: tie_ledger_def match_points_def goals_for_def goals_against_def)

lemma tie_ds_rows:
  "ds_league_row tie_ledger (Timestamp 2020 8 22) ''A'' =
     \<lparr>ds_tr_team = ''A'', ds_tr_points = 1, ds_tr_goal_difference = 0, ds_tr_goals_scored = 1\<rparr>"
  "ds_league_row tie_ledger (Timestamp 2020 8 22) ''B'' =
     \<lparr>ds_tr_team = ''B'', ds_tr_points = 1, ds_tr_goal_difference = 0, ds_tr_goals_scored = 1\<rparr>"
  by (simp_all add: ds_league_row_def ds_calculate_team_form_def tie_team_matches Let_def)
     (simp_all add: tie_ledger_def form_step_def result_step_def form_acc0_def)

text \<open>
  C2, as stated, fails: after the single draw A 1-1 B, the teams A and B are level on
  points, goal difference and goals scored. In both variants, when the team set is
  iterated B first, B is ranked 1 and A is ranked 2, although A is the smaller team
  identifier; when it is iterated A first, the positions are exchanged. The position
  depends on the iteration order of the set.
\<close>

theorem standings_tie_counterexample:
  "season_standing (season_matches_of tie_ledger (Timestamp 2020 8 22)) ''A'' = (1, 0, 1)
   \<and> season_standing (season_matches_of tie_ledger (Timestamp 2020 8 22)) ''B'' = (1, 0, 1)
   \<and> ''A'' < ''B''
   \<and> calculate_league_position rev tie_ledger ''A'' (Timestamp 2020 8 22) =
        Inr \<lparr>league_position = 2, league_points = 1, league_goal_difference = 0,
             league_matches_played = 1\<rparr>
   \<and> calculate_league_position rev tie_ledger ''B'' (Timestamp 2020 8 22) =
        Inr \<lparr>league_position = 1, league_points = 1, league_goal_difference = 0,
             league_matches_played = 1\<rparr>
   \<and> calculate_league_position id tie_ledger ''A'' (Timestamp 2020 8 22) =
        Inr \<lparr>league_position = 1, league_points = 1, league_goal_difference = 0,
             league_matches_played = 1\<rparr>
   \<and> calculate_league_position id tie_ledger ''B'' (Timestamp 2020 8 22) =
        Inr \<lparr>league_position = 2, league_points = 1, league_goal_difference = 0,
             league_matches_played = 1\<rparr>
   \<and> ds_calculate_league_position rev tie_ledger ''A'' (Timestamp 2020 8 22) =
        \<lparr>ds_position = 2, ds_points = 1, ds_goal_difference = 0\<rparr>
   \<and> ds_calculate_league_position rev tie_ledger ''B'' (Timestamp 2020 8 22) =
        \<lparr>ds_position = 1, ds_points = 1, ds_goal_difference = 0\<rparr>
   \<and> ds_calculate_league_position id tie_ledger ''A'' (Timestamp 2020 8 22) =
        \<lparr>ds_position = 1, ds_points = 1, ds_goal_difference = 0\<rparr>
   \<and> ds_calculate_league_position id tie_ledger ''B'' (Timestamp 2020 8 22) =
        \<lparr>ds_position = 2, ds_points = 1, ds_goal_difference = 0\<rparr>"
  by (simp add: tie_standing calculate_league_position_table tie_season_matches
      tie_ledger_nonempty tie_league_teams tie_rows table_key_def sort_league_table_def
      sort_desc_def ds_calculate_league_position_def tie_ds_season_matches
      ds_build_league_table_map tie_ds_rows ds_table_key_def Let_def)

text \<open>
  C2, amended. Let \<open>a\<close> and \<open>b\<close> be two teams of the season-to-date table all of whose
  matches before the date belong to that season (at most 100 each). In the feature builder
  and in the dataset builder: the team with the strictly greater season-to-date (points,
  goal difference, goals scored) is ranked above the other, whatever the iteration order
  of the team set; and when the two are level on all three, they are ranked in the order
  in which the team set is iterated. The positions are a function of the match data and of
  that iteration order; the feature builder's queries do not raise.
\<close>

theorem standings_tie_break:
  assumes "sm = season_matches_of df d" and "its = set_iter (league_teams sm)"
      and "dsm = ds_season_matches_of df d" and "dits = set_iter (league_teams dsm)"
  shows "(sm \<noteq> [] \<and> a \<in> set its \<and> b \<in> set its
            \<and> season_only df sm a d \<and> season_only df sm b d \<longrightarrow>
          (\<exists>pa pb. calculate_league_position set_iter df a d = Inr pa
             \<and> calculate_league_position set_iter df b d = Inr pb
             \<and> (season_standing sm b < season_standing sm a
                  \<longrightarrow> league_position pa < league_position pb)
             \<and> (season_standing sm a = season_standing sm b
                    \<and> first_index a its < first_index b its
                  \<longrightarrow> league_position pa < league_position pb)))
       \<and> (a \<in> set dits \<and> b \<in> set dits
            \<and> season_only df dsm a d \<and> season_only df dsm b d \<longrightarrow>
          (season_standing dsm b < season_standing dsm a
             \<longrightarrow> ds_position (ds_calculate_league_position set_iter df a d)
                   < ds_position (ds_calculate_league_position set_iter df b d))
          \<and> (season_standing dsm a = season_standing dsm b
                \<and> first_index a dits < first_index b dits
             \<longrightarrow> ds_position (ds_calculate_league_position set_iter df a d)
                   < ds_position (ds_calculate_league_position set_iter df b d)))"
proof (intro conjI impI)
  assume h: "sm \<noteq> [] \<and> a \<in> set its \<and> b \<in> set its
            \<and> season_only df sm a d \<and> season_only df sm b d"
  let ?R = "map (league_row df d) its"
  let ?S = "sort_league_table ?R"
  let ?ra = "league_row df d a"
  let ?rb = "league_row df d b"
  have ne: "season_matches_of df d \<noteq> []" using h assms(1) by simp
  have ma: "a \<in> set (set_iter (league_teams (season_matches_of df d)))"
    and mb: "b \<in> set (set_iter (league_teams (season_matches_of df d)))"
    using h assms(1,2) by simp_all
  have its: "set_iter (league_teams (season_matches_of df d)) = its"
    using assms(1,2) by simp
  from league_position_index [of df d a set_iter, OF ne ma]
  obtain pa where pa: "calculate_league_position set_iter df a d = Inr pa"
      "league_position pa = int (first_index ?ra ?S) + 1"
    unfolding its by blast
  from league_position_index [of df d b set_iter, OF ne mb]
  obtain pb where pb: "calculate_league_position set_iter df b d = Inr pb"
      "league_position pb = int (first_index ?rb ?S) + 1"
    unfolding its by blast
  have ra: "?ra \<in> set ?R" and rb: "?rb \<in> set ?R"
    using h by simp_all
  have ka: "table_key ?ra = season_standing sm a" and kb: "table_key ?rb = season_standing sm b"
    using h by (simp_all add: table_key_season)
  have strict: "league_position pa < league_position pb"
    if "season_standing sm b < season_standing sm a"
  proof -
    have "table_key ?rb < table_key ?ra" using that by (simp add: ka kb)
    from sorted_index_strict [OF ra rb this]
    show ?thesis by (simp add: pa(2) pb(2) sort_league_table_def)
  qed
  have tie: "league_position pa < league_position pb"
    if "season_standing sm a = season_standing sm b \<and> first_index a its < first_index b its"
  proof -
    have k: "table_key ?ra = table_key ?rb" using that by (simp add: ka kb)
    have "first_index ?ra ?R < first_index ?rb ?R"
      using that by (simp add: league_row_index_iter)
    then have "first_index ?ra ?S < first_index ?rb ?S"
      unfolding sort_league_table_def sorted_index_tie [OF ra rb k] .
    then show ?thesis by (simp add: pa(2) pb(2))
  qed
  show "\<exists>pa pb. calculate_league_position set_iter df a d = Inr pa
             \<and> calculate_league_position set_iter df b d = Inr pb
             \<and> (season_standing sm b < season_standing sm a
                  \<longrightarrow> league_position pa < league_position pb)
             \<and> (season_standing sm a = season_standing sm b
                    \<and> first_index a its < first_index b its
                  \<longrightarrow> league_position pa < league_position pb)"
    using pa(1) pb(1) strict tie by blast
next
  assume h: "a \<in> set dits \<and> b \<in> set dits
            \<and> season_only df dsm a d \<and> season_only df dsm b d"
  let ?R = "map (ds_league_row df d) dits"
  let ?S = "sort_desc ds_table_key ?R"
  let ?ra = "ds_league_row df d a"
  let ?rb = "ds_league_row df d b"
  have dits: "set_iter (league_teams (ds_season_matches_of df d)) = dits"
    using assms(3,4) by simp
  have pa: "ds_position (ds_calculate_league_position set_iter df a d)
      = int (first_index ?ra ?S) + 1"
    using ds_league_position_index [of a set_iter df d] h unfolding dits by simp
  have pb: "ds_position (ds_calculate_league_position set_iter df b d)
      = int (first_index ?rb ?S) + 1"
    using ds_league_position_index [of b set_iter df d] h unfolding dits by simp
  have ra: "?ra \<in> set ?R" and rb: "?rb \<in> set ?R"
    using h by simp_all
  have ka: "ds_table_key ?ra = season_standing dsm a"
    and kb: "ds_table_key ?rb = season_standing dsm b"
    using h by (simp_all add: ds_table_key_season)
  {
    assume "season_standing dsm b < season_standing dsm a"
    then have "ds_table_key ?rb < ds_table_key ?ra" by (simp add: ka kb)
    from sorted_index_strict [OF ra rb this]
    show "ds_position (ds_calculate_league_position set_iter df a d)
            < ds_position (ds_calculate_league_position set_iter df b d)"
      by (simp add: pa pb)
  }
  {
    assume t: "season_standing dsm a = season_standing dsm b
                \<and> first_index a dits < first_index b dits"
    then have k: "ds_table_key ?ra = ds_table_key ?rb" by (simp add: ka kb)
    have "first_index ?ra ?R < first_index ?rb ?R"
      using t by (simp add: ds_league_row_index_iter)
    then have "first_index ?ra ?S < first_index ?rb ?S"
      unfolding sorted_index_tie [OF ra rb k] .
    then show "ds_position (ds_calculate_league_position set_iter df a d)
            < ds_position (ds_calculate_league_position set_iter df b d)"
      by (simp add: pa pb)
  }
qed

theorem standings_tie_break_witness:
  "tie_ledger = season_matches_of tie_ledger (Timestamp 2020 8 22)
   \<and> tie_ledger = ds_season_matches_of tie_ledger (Timestamp 2020 8 22)
   \<and> [''B'', ''A''] = rev (league_teams tie_ledger)
   \<and> tie_ledger \<noteq> []
   \<and> ''B'' \<in> set [''B'', ''A''] \<and> ''A'' \<in> set [''B'', ''A'']
   \<and> season_only tie_ledger tie_ledger ''B'' (Timestamp 2020 8 22)
   \<and> season_only tie_ledger tie_ledger ''A'' (Timestamp 2020 8 22)
   \<and> season_standing tie_ledger ''B'' = season_standing tie_ledger ''A''
   \<and> first_index ''B'' [''B'', ''A''] < first_index ''A'' [''B'', ''A'']
   \<and> (\<exists>pa pb. calculate_league_position rev tie_ledger ''B'' (Timestamp 2020 8 22) = Inr pa
          \<and> calculate_league_position rev tie_ledger ''A'' (Timestamp 2020 8 22) = Inr pb
          \<and> league_position pa < league_position pb)
   \<and> ds_position (ds_calculate_league_position rev tie_ledger ''B'' (Timestamp 2020 8 22))
       < ds_position (ds_calculate_league_position rev tie_ledger ''A'' (Timestamp 2020 8 22))"
proof -
  have sm: "tie_ledger = season_matches_of tie_ledger (Timestamp 2020 8 22)"
    by (simp add: tie_season_matches)
  have dsm: "tie_ledger = ds_season_matches_of tie_ledger (Timestamp 2020 8 22)"
    by (simp add: tie_ds_season_matches)
  have its: "[''B'', ''A''] = rev (league_teams tie_ledger)"
    by (simp add: tie_league_teams)
  have k: "season_standing tie_ledger ''B'' = season_standing tie_ledger ''A''"
    by (simp add: tie_standing)
  have i: "first_index ''B'' [''B'', ''A''] < first_index ''A'' [''B'', ''A'']"
    by simp
  have m: "''B'' \<in> set [''B'', ''A''] \<and> ''A'' \<in> set [''B'', ''A'']"
    by simp
  note t = standings_tie_break [where set_iter = rev and df = tie_ledger
      and d = "Timestamp 2020 8 22" and sm = tie_ledger and dsm = tie_ledger
      and its = "[''B'', ''A'']" and dits = "[''B'', ''A'']" and a = "''B''" and b = "''A''",
      OF sm its dsm its]
  from t tie_ledger_nonempty m tie_season_only k i
  obtain pa pb where "calculate_league_position rev tie_ledger ''B'' (Timestamp 2020 8 22) = Inr pa"
     "calculate_league_position rev tie_ledger ''A'' (Timestamp 2020 8 22) = Inr pb"
     "league_position pa < league_position pb"
    by auto
  moreover from t m tie_season_only k i
  have "ds_position (ds_calculate_league_position rev tie_ledger ''B'' (Timestamp 2020 8 22))
       < ds_position (ds_calculate_league_position rev tie_ledger ''A'' (Timestamp 2020 8 22))"
    by auto
  ultimately show ?thesis
    using sm dsm its tie_ledger_nonempty m tie_season_only k i by blast
qed


section \<open>No leakage\<close>

text \<open>
  In the feature builder every query reads the frame only through the rows dated strictly
  before the query date: two frames with the same such rows give the same form,
  head-to-head, league position, rest days and momentum.
\<close>

lemma filter_before:
  "filter (\<lambda>r. P r \<and> date_lt (date r) d) df = filter P (matches_before df d)"
  by (simp add: matches_before_def conj_commute)

lemma qualifying_before:
  "qualifying df team d =
     filter (\<lambda>r. home_team r = team \<or> away_team r = team) (matches_before df d)"
  by (simp add: qualifying_def filter_before)

lemma team_matches_before:
  assumes "matches_before df d = matches_before df' d"
  shows "team_matches df team d n = team_matches df' team d n"
  using assms by (simp add: team_matches_qualifying qualifying_before)

lemma h2h_matches_before:
  assumes "matches_before df d = matches_before df' d"
  shows "h2h_matches df team1 team2 d n = h2h_matches df' team1 team2 d n"
  using assms by (simp add: h2h_matches_def filter_before)

lemma season_matches_before:
  assumes "matches_before df d = matches_before df' d"
  shows "season_matches_of df d = season_matches_of df' d"
proof -
  have "season_matches_of df d = filter (\<lambda>r. season r = season_year_of d) (matches_before df d)"
    for df
    by (simp add: season_matches_of_def matches_before_def)
  then show ?thesis using assms by simp
qed

lemma fb_no_leakage:
  assumes "matches_before df d = matches_before df' d"
  shows "calculate_team_form df team d n = calculate_team_form df' team d n"
    and "calculate_head_to_head df team1 team2 d n = calculate_head_to_head df' team1 team2 d n"
    and "calculate_league_position set_iter df team d = calculate_league_position set_iter df' team d"
    and "calculate_rest_days df team d = calculate_rest_days df' team d"
    and "calculate_momentum df team d n = calculate_momentum df' team d n"
proof -
  note tm = team_matches_before [OF assms]
  show "calculate_team_form df team d n = calculate_team_form df' team d n"
    by (simp add: calculate_team_form_def tm)
  show "calculate_head_to_head df team1 team2 d n = calculate_head_to_head df' team1 team2 d n"
    by (simp add: calculate_head_to_head_def h2h_matches_before [OF assms])
  have "league_row df d = league_row df' d"
    by (rule ext) (simp add: league_row_def tm)
  then have bt: "build_league_table df d = build_league_table df' d"
    by (intro ext) (simp add: build_league_table_Inr)
  show "calculate_league_position set_iter df team d
      = calculate_league_position set_iter df' team d"
    unfolding calculate_league_position_def bt season_matches_before [OF assms]
    by (rule refl)
  show "calculate_rest_days df team d = calculate_rest_days df' team d"
    using assms by (simp add: calculate_rest_days_qualifying qualifying_before)
  show "calculate_momentum df team d n = calculate_momentum df' team d n"
    by (simp add: calculate_momentum_def tm)
qed


lemma leak_before:
  "matches_before leak_ledger (Timestamp 2020 9 12) = [leak_ledger ! 0]"
  "matches_before (leak_ledger @ [same_day_match]) (Timestamp 2020 9 12) = [leak_ledger ! 0]"
  by (simp_all add: matches_before_def leak_ledger_def same_day_match_def date_defs)

lemma leak_ds_season:
  "ds_season_matches_of leak_ledger (Timestamp 2020 9 12) = [leak_ledger ! 0]"
  "ds_season_matches_of (leak_ledger @ [same_day_match]) (Timestamp 2020 9 12) = []"
  by (simp_all add: ds_season_matches_of_def leak_ledger_def same_day_match_def date_defs)

lemma leak_team_matches:
  "team_matches leak_ledger ''A'' (Timestamp 2020 9 12) 100 = [leak_ledger ! 0]"
  "team_matches leak_ledger ''B'' (Timestamp 2020 9 12) 100 = [leak_ledger ! 0]"
  by (simp_all add: team_matches_def leak_ledger_def df_head_def sort_values_date_desc_def
      sort_desc_def date_defs)

lemma leak_forms:
  "ds_calculate_team_form leak_ledger ''A'' (Timestamp 2020 9 12) 100 =
     \<lparr>ds_form_points = 3, ds_form_goals_scored = 1, ds_form_goals_conceded = 0,
      ds_form_goal_difference = 1, ds_form_wins = 1, ds_form_draws = 0, ds_form_losses = 0,
      ds_form_matches_played = 1\<rparr>"
  "ds_calculate_team_form leak_ledger ''B'' (Timestamp 2020 9 12) 100 =
     \<lparr>ds_form_points = 0, ds_form_goals_scored = 0, ds_form_goals_conceded = 1,
      ds_form_goal_difference = - 1, ds_form_wins = 0, ds_form_draws = 0, ds_form_losses = 1,
      ds_form_matches_played = 1\<rparr>"
  by (simp_all add: ds_calculate_team_form_def leak_team_matches Let_def)
     (simp_all add: leak_ledger_def form_step_def result_step_def form_acc0_def)

text \<open>
  C1. The dataset builder's league position breaks the claim. It takes the season from the
  last row dated at or before the evaluation date. The two frames below hold the same
  matches strictly before 2020-09-12 and differ by one match dated 2020-09-12; for the
  match of A on 2020-09-12 the league position of A is (position 1, 3 points, goal
  difference 1) without the extra match and (position 20, 0 points, goal difference 0)
  with it.
\<close>

theorem ds_league_position_leak:
  "matches_before (leak_ledger @ [same_day_match]) (Timestamp 2020 9 12)
     = matches_before leak_ledger (Timestamp 2020 9 12)
   \<and> date same_day_match = Timestamp 2020 9 12
   \<and> ds_calculate_league_position id leak_ledger ''A'' (Timestamp 2020 9 12) =
        \<lparr>ds_position = 1, ds_points = 3, ds_goal_difference = 1\<rparr>
   \<and> ds_calculate_league_position id (leak_ledger @ [same_day_match]) ''A'' (Timestamp 2020 9 12) =
        \<lparr>ds_position = 20, ds_points = 0, ds_goal_difference = 0\<rparr>"
proof -
  have lt: "league_teams [leak_ledger ! 0] = [''A'', ''B'']"
    by (simp add: league_teams_def leak_ledger_def)
  have a: "ds_calculate_league_position id leak_ledger ''A'' (Timestamp 2020 9 12) =
        \<lparr>ds_position = 1, ds_points = 3, ds_goal_difference = 1\<rparr>"
    by (simp add: ds_calculate_league_position_def leak_ds_season lt ds_build_league_table_def
        leak_forms ds_table_key_def sort_desc_def Let_def)
  have "''A'' \<notin> set (id (league_teams
           (ds_season_matches_of (leak_ledger @ [same_day_match]) (Timestamp 2020 9 12))))"
    by (simp add: leak_ds_season league_teams_def)
  then have b: "ds_calculate_league_position id (leak_ledger @ [same_day_match]) ''A''
        (Timestamp 2020 9 12) = ds_default_league_pos"
    by (rule absent_team_ds)
  show ?thesis
    by (simp add: a b leak_before ds_default_league_pos_def) (simp add: same_day_match_def)
qed

end
